theory Spec2Isabelle
  imports Complex_Main
begin

section \<open>JavaScript values\<close>

text \<open>
  The schema editor (\<^verbatim>\<open>src/js/schema.js\<close>) works on parsed JSON documents and on a few
  values that only the running program makes: \<^verbatim>\<open>undefined\<close> (a missing property, or a
  property stored as \<^verbatim>\<open>undefined\<close> in an object literal) and functions (what a name such as
  \<^verbatim>\<open>toString\<close> yields through the prototype chain). Numbers are the finite doubles, read
  as rationals; an object is the list of its own enumerable properties in the order
  JavaScript enumerates them. Strings are lists of characters (one \<open>char\<close> per code unit,
  so the model is exact on ASCII text).
\<close>

datatype json =
    JUndefined
  | JNull
  | JBool bool
  | JNum rat
  | JStr string
  | JArr "json list"
  | JObj "(string \<times> json) list"
  | JFun

text \<open>Truthiness, \<^verbatim>\<open>typeof\<close> and \<^verbatim>\<open>Array.isArray\<close>.\<close>

fun truthy :: "json \<Rightarrow> bool" where
  "truthy JUndefined = False"
| "truthy JNull = False"
| "truthy (JBool b) = b"
| "truthy (JNum n) = (n \<noteq> 0)"
| "truthy (JStr s) = (s \<noteq> [])"
| "truthy (JArr xs) = True"
| "truthy (JObj kvs) = True"
| "truthy JFun = True"

fun typeof :: "json \<Rightarrow> string" where
  "typeof JUndefined = ''undefined''"
| "typeof JNull = ''object''"
| "typeof (JBool b) = ''boolean''"
| "typeof (JNum n) = ''number''"
| "typeof (JStr s) = ''string''"
| "typeof (JArr xs) = ''object''"
| "typeof (JObj kvs) = ''object''"
| "typeof JFun = ''function''"

fun isArray :: "json \<Rightarrow> bool" where
  "isArray (JArr xs) = True"
| "isArray v = False"

fun elems :: "json \<Rightarrow> json list" where
  "elems (JArr xs) = xs"
| "elems v = []"

text \<open>\<^verbatim>\<open>a || b\<close> on values.\<close>

definition or_else :: "json \<Rightarrow> json \<Rightarrow> json" where
  "or_else a b = (if truthy a then a else b)"

subsection \<open>Strings\<close>

definition startsWith :: "string \<Rightarrow> string \<Rightarrow> bool" where
  "startsWith s p = (take (length p) s = p)"

text \<open>\<^verbatim>\<open>s.split(c)\<close> for a one-character separator.\<close>

fun split_on :: "char \<Rightarrow> string \<Rightarrow> string list" where
  "split_on c [] = [[]]"
| "split_on c (x # xs) =
     (if x = c then [] # split_on c xs
      else (case split_on c xs of w # ws \<Rightarrow> (x # w) # ws | [] \<Rightarrow> [[x]]))"

text \<open>\<^verbatim>\<open>s.replace(/ab/g, r)\<close> for a two-character literal pattern \<open>ab\<close>.\<close>

fun replace_all2 :: "char \<Rightarrow> char \<Rightarrow> string \<Rightarrow> string \<Rightarrow> string" where
  "replace_all2 a b r (x # y # s) =
     (if x = a \<and> y = b then r @ replace_all2 a b r s else x # replace_all2 a b r (y # s))"
| "replace_all2 a b r s = s"

text \<open>Decimal numerals: \<^verbatim>\<open>String(n)\<close> for a natural number, and its inverse on digit strings.\<close>

definition digit_char :: "nat \<Rightarrow> char" where
  "digit_char d = ''0123456789'' ! d"

fun show_nat :: "nat \<Rightarrow> string" where
  "show_nat n = (if n < 10 then [digit_char n] else show_nat (n div 10) @ [digit_char (n mod 10)])"

declare show_nat.simps [simp del]

definition digit_of :: "char \<Rightarrow> nat option" where
  "digit_of c = map_of (zip ''0123456789'' [0 ..< 10]) c"

fun digits_value :: "nat \<Rightarrow> string \<Rightarrow> nat option" where
  "digits_value acc [] = Some acc"
| "digits_value acc (c # cs) =
     (case digit_of c of None \<Rightarrow> None | Some d \<Rightarrow> digits_value (10 * acc + d) cs)"

definition read_nat :: "string \<Rightarrow> nat option" where
  "read_nat s = (if s = [] then None else digits_value 0 s)"

text \<open>
  An array index is a canonical numeral below \<open>2^32 - 1\<close>: these are the property names
  that JavaScript keeps in ascending numeric order, ahead of all other names.
\<close>

definition array_index :: "string \<Rightarrow> nat option" where
  "array_index k =
     (case read_nat k of
        None \<Rightarrow> None
      | Some n \<Rightarrow> if show_nat n = k \<and> int n < 4294967295 then Some n else None)"

subsection \<open>Own properties\<close>

text \<open>
  \<^verbatim>\<open>Object.entries(v)\<close>, which is also what a spread \<^verbatim>\<open>{...v}\<close> copies: the members of
  an object, the indexed elements of an array, the indexed characters of a string, and
  nothing for the other values.
\<close>

fun own_entries :: "json \<Rightarrow> (string \<times> json) list" where
  "own_entries (JObj kvs) = kvs"
| "own_entries (JArr xs) = zip (map show_nat [0 ..< length xs]) xs"
| "own_entries (JStr s) = zip (map show_nat [0 ..< length s]) (map (\<lambda>c. JStr [c]) s)"
| "own_entries v = []"

definition own_keys :: "json \<Rightarrow> string list" where
  "own_keys v = map fst (own_entries v)"

text \<open>
  \<^verbatim>\<open>v[k]\<close> looked up among the value's own properties (with \<^verbatim>\<open>length\<close> of arrays and
  strings); \<open>JUndefined\<close> when there is none.
\<close>

fun get :: "json \<Rightarrow> string \<Rightarrow> json" where
  "get (JObj kvs) k = (case map_of kvs k of Some v \<Rightarrow> v | None \<Rightarrow> JUndefined)"
| "get (JArr xs) k =
     (if k = ''length'' then JNum (of_nat (length xs))
      else (case array_index k of
              Some i \<Rightarrow> if i < length xs then xs ! i else JUndefined
            | None \<Rightarrow> JUndefined))"
| "get (JStr s) k =
     (if k = ''length'' then JNum (of_nat (length s))
      else (case array_index k of
              Some i \<Rightarrow> if i < length s then JStr [s ! i] else JUndefined
            | None \<Rightarrow> JUndefined))"
| "get v k = JUndefined"

text \<open>
  \<^verbatim>\<open>o[k] = v\<close> on an object: an existing property keeps its place; a new array index goes
  among the indices in ascending order; any other new name goes last.
\<close>

fun ins_index :: "nat \<Rightarrow> string \<Rightarrow> json \<Rightarrow> (string \<times> json) list \<Rightarrow> (string \<times> json) list" where
  "ins_index n k v [] = [(k, v)]"
| "ins_index n k v (e # r) =
     (case array_index (fst e) of
        Some m \<Rightarrow> if m < n then e # ins_index n k v r else (k, v) # e # r
      | None \<Rightarrow> (k, v) # e # r)"

definition obj_set :: "string \<Rightarrow> json \<Rightarrow> (string \<times> json) list \<Rightarrow> (string \<times> json) list" where
  "obj_set k v kvs =
     (if k \<in> set (map fst kvs) then map (\<lambda>e. if fst e = k then (k, v) else e) kvs
      else (case array_index k of Some n \<Rightarrow> ins_index n k v kvs | None \<Rightarrow> kvs @ [(k, v)]))"

definition obj_delete :: "string \<Rightarrow> (string \<times> json) list \<Rightarrow> (string \<times> json) list" where
  "obj_delete k kvs = filter (\<lambda>e. fst e \<noteq> k) kvs"

text \<open>\<^verbatim>\<open>Object.assign(o, src)\<close> and the spread \<^verbatim>\<open>{...a, ...b}\<close>.\<close>

definition obj_assign :: "(string \<times> json) list \<Rightarrow> (string \<times> json) list \<Rightarrow> (string \<times> json) list" where
  "obj_assign kvs src = foldl (\<lambda>r e. obj_set (fst e) (snd e) r) kvs src"

definition spread :: "json \<Rightarrow> (string \<times> json) list" where
  "spread v = obj_assign [] (own_entries v)"

subsection \<open>The host\<close>

text \<open>
  What the program takes from the JavaScript runtime and the browser, and what no
  JSON document decides: members inherited through the prototype chain, the numeric
  parse of text that is not a plain decimal numeral, the text of a number that is not a
  natural number, and regular expressions.
\<close>

record runtime =
  proto :: "json \<Rightarrow> string \<Rightarrow> json"
  Number_text :: "string \<Rightarrow> rat option"
  String_value :: "json \<Rightarrow> string"
  ToNumber_value :: "json \<Rightarrow> rat option"
  parseInt_text :: "string \<Rightarrow> int option"
  JSON_stringify :: "json \<Rightarrow> string"
  regex_test :: "string \<Rightarrow> string \<Rightarrow> bool"

text \<open>\<^verbatim>\<open>v[k]\<close> with the prototype chain: an own property first, then what the host inherits.\<close>

definition member :: "runtime \<Rightarrow> json \<Rightarrow> string \<Rightarrow> json" where
  "member rt v k = (if get v k \<noteq> JUndefined then get v k else proto rt v k)"

text \<open>
  \<^verbatim>\<open>Number(s)\<close> on text: \<open>None\<close> stands for \<^verbatim>\<open>NaN\<close> and the infinities. The empty string
  is 0; an optionally signed decimal numeral below \<open>2^53\<close> is read exactly; every other
  text is the host's.
\<close>

definition js_Number :: "runtime \<Rightarrow> string \<Rightarrow> rat option" where
  "js_Number rt s =
     (if s = [] then Some 0
      else (case read_nat s of
              Some n \<Rightarrow> if int n < 9007199254740992 then Some (of_nat n) else Number_text rt s
            | None \<Rightarrow>
               (case s of
                  c # r \<Rightarrow>
                    (if c = CHR ''-'' \<or> c = CHR ''+'' then
                       (case read_nat r of
                          Some n \<Rightarrow>
                            if int n < 9007199254740992 then Some (if c = CHR ''-'' then - of_nat n else of_nat n)
                            else Number_text rt s
                        | None \<Rightarrow> Number_text rt s)
                     else Number_text rt s)
                | [] \<Rightarrow> Some 0)))"

definition is_integer :: "rat \<Rightarrow> bool" where
  "is_integer q = (snd (quotient_of q) = 1)"

text \<open>\<^verbatim>\<open>Number(v)\<close> and \<^verbatim>\<open>String(v)\<close> on values.\<close>

fun to_number :: "runtime \<Rightarrow> json \<Rightarrow> rat option" where
  "to_number rt (JNum n) = Some n"
| "to_number rt (JStr s) = js_Number rt s"
| "to_number rt (JBool b) = Some (if b then 1 else 0)"
| "to_number rt JNull = Some 0"
| "to_number rt JUndefined = None"
| "to_number rt v = ToNumber_value rt v"

fun to_string :: "runtime \<Rightarrow> json \<Rightarrow> string" where
  "to_string rt (JStr s) = s"
| "to_string rt (JBool b) = (if b then ''true'' else ''false'')"
| "to_string rt JNull = ''null''"
| "to_string rt JUndefined = ''undefined''"
| "to_string rt (JNum n) =
     (if is_integer n \<and> 0 \<le> n \<and> n < 9007199254740992 then show_nat (nat (fst (quotient_of n)))
      else String_value rt (JNum n))"
| "to_string rt v = String_value rt v"

text \<open>
  \<^verbatim>\<open>parseInt(s, 10)\<close>: \<open>None\<close> is \<^verbatim>\<open>NaN\<close>. A plain decimal numeral below \<open>2^53\<close> is read
  exactly; every other text is the host's.
\<close>

definition js_parseInt :: "runtime \<Rightarrow> string \<Rightarrow> int option" where
  "js_parseInt rt s =
     (case read_nat s of
        Some n \<Rightarrow> if int n < 9007199254740992 then Some (int n) else parseInt_text rt s
      | None \<Rightarrow> parseInt_text rt s)"

section \<open>Reference resolution\<close>

text \<open>
  A call returns a value, throws (the exceptions the modelled code can raise are the
  \<^verbatim>\<open>TypeError\<close>s of spreading a value that is not iterable and of calling \<^verbatim>\<open>includes\<close>
  on a value that has none), or, for the functions that recurse along the schema and may
  never return, runs out of the fuel it was given.
\<close>

datatype 'a res = Ret 'a | Throw | OutOfFuel

fun bind_res :: "'a res \<Rightarrow> ('a \<Rightarrow> 'b res) \<Rightarrow> 'b res" where
  "bind_res (Ret x) f = f x"
| "bind_res Throw f = Throw"
| "bind_res OutOfFuel f = OutOfFuel"

lemma bind_res_cong [fundef_cong]:
  "a = b \<Longrightarrow> (\<And>x. b = Ret x \<Longrightarrow> f x = g x) \<Longrightarrow> bind_res a f = bind_res b g"
  by (cases b) auto

definition map_res :: "('a \<Rightarrow> 'b) \<Rightarrow> 'a res \<Rightarrow> 'b res" where
  "map_res f r = bind_res r (\<lambda>x. Ret (f x))"

text \<open>
  \<^verbatim>\<open>resolveRef(ref)\<close>: \<open>doc\<close> is \<^verbatim>\<open>state.schema\<close> (\<open>JNull\<close> while no schema is loaded). A
  pointer segment has \<^verbatim>\<open>~1\<close> replaced by \<^verbatim>\<open>/\<close> and then \<^verbatim>\<open>~0\<close> by \<^verbatim>\<open>~\<close>; the walk is the
  \<^verbatim>\<open>reduce\<close> over the segments.
\<close>

definition unescape :: "string \<Rightarrow> string" where
  "unescape segment = replace_all2 CHR ''~'' CHR ''0'' ''~'' (replace_all2 CHR ''~'' CHR ''1'' ''/'' segment)"

definition pointer_step :: "runtime \<Rightarrow> json \<Rightarrow> string \<Rightarrow> json" where
  "pointer_step rt acc segment =
     (if truthy acc \<and> member rt acc segment \<noteq> JUndefined then member rt acc segment else JNull)"

definition resolveRef :: "runtime \<Rightarrow> json \<Rightarrow> json \<Rightarrow> json" where
  "resolveRef rt doc ref =
     (case ref of
        JStr r \<Rightarrow>
          (if r = [] then JNull
           else if startsWith r ''#'' then
             (if r = ''#'' then doc
              else if \<not> startsWith r ''#/'' then JNull
              else foldl (pointer_step rt) doc (map unescape (split_on CHR ''/'' (drop 2 r))))
           else if startsWith r ''http://'' \<or> startsWith r ''https://'' then
             JObj [(''__unresolvedRef'', JStr r)]
           else JNull)
      | _ \<Rightarrow> JNull)"

text \<open>
  \<^verbatim>\<open>resolveSchema(schema, seen)\<close>. The merged node has its \<^verbatim>\<open>$ref\<close> deleted before the
  recursive call, which is what makes the recursion end.
\<close>

lemma map_of_obj_delete [simp]: "map_of (obj_delete k kvs) k = None"
  by (induction kvs) (auto simp: obj_delete_def)

function resolveSchema :: "runtime \<Rightarrow> json \<Rightarrow> json \<Rightarrow> json list \<Rightarrow> json" where
  "resolveSchema rt doc schema seen =
     (if schema = JBool True then JObj []
      else if schema = JBool False then JObj [(''__alwaysInvalid'', JBool True)]
      else if \<not> truthy schema \<or> typeof schema \<noteq> ''object'' then schema
      else if \<not> truthy (get schema ''$ref'') then schema
      else if \<not> truthy doc then schema
      else if get schema ''$ref'' \<in> set seen then
        JObj [(''__circularRef'', JBool True), (''description'', get schema ''description'')]
      else if \<not> truthy (resolveRef rt doc (get schema ''$ref'')) then
        JObj [(''__unresolvedRef'', get schema ''$ref''), (''description'', get schema ''description'')]
      else
        resolveSchema rt doc
          (JObj (obj_delete ''$ref''
             (obj_assign (spread (resolveRef rt doc (get schema ''$ref'')))
                (obj_delete ''$ref'' (own_entries schema)))))
          (seen @ [get schema ''$ref'']))"
  by pat_completeness auto
termination
  by (relation "measure (\<lambda>(rt, doc, schema, seen). if truthy (get schema ''$ref'') then 1 else 0)") auto

declare resolveSchema.simps [simp del]

section \<open>External references\<close>

text \<open>
  \<^verbatim>\<open>state.externalSchemaCache\<close> is a map from base URLs to fetched documents, with
  \<^verbatim>\<open>null\<close> for a fetch that failed. The network is a parameter: \<open>net k url\<close> is the
  answer to the request for \<open>url\<close> issued after \<open>k\<close> earlier requests, \<open>None\<close> when the
  request fails (network error, a status that is not 2xx, a body that is not JSON). The
  state records the requests issued.
\<close>

record fetch_state =
  cache :: "(string \<times> json) list"
  requests :: "string list"

definition cache_set :: "string \<Rightarrow> json \<Rightarrow> (string \<times> json) list \<Rightarrow> (string \<times> json) list" where
  "cache_set k v c =
     (if k \<in> set (map fst c) then map (\<lambda>e. if fst e = k then (k, v) else e) c else c @ [(k, v)])"

definition ref_parts :: "string \<Rightarrow> string \<times> string option" where
  "ref_parts r =
     (if CHR ''#'' \<in> set r then
        (case split_on CHR ''#'' r of
           b # f # rest \<Rightarrow> (b, Some f)
         | [b] \<Rightarrow> (b, None)
         | [] \<Rightarrow> ([], None))
      else (r, None))"

text \<open>\<^verbatim>\<open>segment in acc\<close>, \<^verbatim>\<open>resolveFragment\<close> and \<^verbatim>\<open>resolveExternalRef\<close>.\<close>

definition has_member :: "runtime \<Rightarrow> json \<Rightarrow> string \<Rightarrow> bool" where
  "has_member rt v k =
     ((case v of
         JObj kvs \<Rightarrow> k \<in> set (map fst kvs)
       | JArr xs \<Rightarrow>
           k = ''length'' \<or> (case array_index k of Some i \<Rightarrow> i < length xs | None \<Rightarrow> False)
       | _ \<Rightarrow> False) \<or>
      proto rt v k \<noteq> JUndefined)"

definition fragment_step :: "runtime \<Rightarrow> json \<Rightarrow> string \<Rightarrow> json" where
  "fragment_step rt acc segment =
     (if truthy acc \<and> typeof acc = ''object'' \<and> has_member rt acc segment
      then member rt acc segment else JNull)"

definition resolveFragment :: "runtime \<Rightarrow> json \<Rightarrow> string \<Rightarrow> json" where
  "resolveFragment rt schema fragment =
     (if fragment = [] then schema
      else if startsWith fragment ''/'' then
        foldl (fragment_step rt) schema (map unescape (split_on CHR ''/'' (drop 1 fragment)))
      else JNull)"

definition with_fragment :: "runtime \<Rightarrow> json \<Rightarrow> string option \<Rightarrow> json" where
  "with_fragment rt baseSchema fragment =
     (case fragment of
        None \<Rightarrow> baseSchema
      | Some f \<Rightarrow> if f = [] then baseSchema else resolveFragment rt baseSchema f)"

definition resolveExternalRef ::
  "runtime \<Rightarrow> (nat \<Rightarrow> string \<Rightarrow> json option) \<Rightarrow> json \<Rightarrow> fetch_state \<Rightarrow> json \<times> fetch_state" where
  "resolveExternalRef rt net ref st =
     (case ref of
        JStr r \<Rightarrow>
          (if r = [] then (JNull, st)
           else if \<not> startsWith r ''http://'' \<and> \<not> startsWith r ''https://'' then (JNull, st)
           else
             (let baseUrl = fst (ref_parts r); fragment = snd (ref_parts r) in
              case map_of (cache st) baseUrl of
                Some baseSchema \<Rightarrow>
                  if baseSchema = JNull then (JNull, st)
                  else (with_fragment rt baseSchema fragment, st)
              | None \<Rightarrow>
                  (case net (length (requests st)) baseUrl of
                     Some baseSchema \<Rightarrow>
                       (with_fragment rt baseSchema fragment,
                        \<lparr> cache = cache_set baseUrl baseSchema (cache st),
                          requests = requests st @ [baseUrl] \<rparr>)
                   | None \<Rightarrow>
                       (JNull,
                        \<lparr> cache = cache_set baseUrl JNull (cache st),
                          requests = requests st @ [baseUrl] \<rparr>))))
      | _ \<Rightarrow> (JNull, st))"

text \<open>
  \<^verbatim>\<open>preResolveExternalRefs(schema)\<close>: the walk over the whole schema before the form is
  rendered. A fetched document that refers to its own URL makes it recurse without end,
  hence the fuel.
\<close>

fun mapM_state :: "('a \<Rightarrow> 's \<Rightarrow> ('b \<times> 's) res) \<Rightarrow> 'a list \<Rightarrow> 's \<Rightarrow> ('b list \<times> 's) res" where
  "mapM_state f [] s = Ret ([], s)"
| "mapM_state f (x # xs) s =
     bind_res (f x s) (\<lambda>p. bind_res (mapM_state f xs (snd p)) (\<lambda>q. Ret (fst p # fst q, snd q)))"

definition is_external :: "json \<Rightarrow> bool" where
  "is_external ref =
     (truthy ref \<and> typeof ref = ''string'' \<and>
      (case ref of JStr r \<Rightarrow> startsWith r ''http://'' \<or> startsWith r ''https://'' | _ \<Rightarrow> False))"

function preResolveExternalRefs ::
  "runtime \<Rightarrow> (nat \<Rightarrow> string \<Rightarrow> json option) \<Rightarrow> nat \<Rightarrow> json \<Rightarrow> fetch_state
     \<Rightarrow> (json \<times> fetch_state) res" where
  "preResolveExternalRefs rt net 0 schema st = OutOfFuel"
| "preResolveExternalRefs rt net (Suc n) schema st =
     (if \<not> truthy schema \<or> typeof schema \<noteq> ''object'' then Ret (schema, st)
      else if isArray schema then
        map_res (\<lambda>p. (JArr (fst p), snd p))
          (mapM_state (\<lambda>item s. preResolveExternalRefs rt net n item s) (elems schema) st)
      else if is_external (get schema ''$ref'') then
        (if truthy (fst (resolveExternalRef rt net (get schema ''$ref'') st)) then
           preResolveExternalRefs rt net n
             (JObj (obj_assign (spread (fst (resolveExternalRef rt net (get schema ''$ref'') st)))
                      (obj_delete ''$ref'' (own_entries schema))))
             (snd (resolveExternalRef rt net (get schema ''$ref'') st))
         else
           Ret (JObj [(''__unresolvedRef'', get schema ''$ref'')],
                snd (resolveExternalRef rt net (get schema ''$ref'') st)))
      else
        map_res (\<lambda>p. (JObj (zip (map fst (spread schema)) (fst p)), snd p))
          (mapM_state
             (\<lambda>v s. if typeof v = ''object'' \<and> v \<noteq> JNull
                    then preResolveExternalRefs rt net n v s else Ret (v, s))
             (map snd (spread schema)) st))"
  by pat_completeness auto
termination
  by (relation "measure (\<lambda>(rt, net, n, schema, st). n)") simp_all

declare preResolveExternalRefs.simps [simp del]

section \<open>Merging allOf\<close>

lemma truthy_defined: "truthy v \<Longrightarrow> v \<noteq> JUndefined"
  by (cases v) auto

lemma size_member: "x \<in> set xs \<Longrightarrow> size x < Suc (size_list size xs)"
  using size_list_estimation' [of x xs "size x" size] by simp

lemma size_entry: "e \<in> set kvs \<Longrightarrow> size (snd e) < Suc (size_list (size_prod (\<lambda>x. 0) size) kvs)"
  using size_list_estimation' [of e kvs "size (snd e)" "size_prod (\<lambda>x. 0) size"]
  by (cases e) simp

lemma size_get: "typeof v = ''object'' \<Longrightarrow> get v k \<noteq> JUndefined \<Longrightarrow> size (get v k) < size v"
proof (cases v)
  case (JObj kvs)
  assume g: "get v k \<noteq> JUndefined"
  then obtain x where x: "map_of kvs k = Some x" using JObj by (auto split: option.splits)
  then have "(k, x) \<in> set kvs" by (rule map_of_SomeD)
  then have "size x < size (JObj kvs)" using size_entry [of "(k, x)" kvs] by simp
  then show ?thesis using x JObj by simp
next
  case (JArr xs)
  assume g: "get v k \<noteq> JUndefined"
  then show ?thesis using JArr size_member [of _ xs]
    by (auto split: option.splits if_splits)
qed auto

lemma size_own_entries: "typeof v = ''object'' \<Longrightarrow> e \<in> set (own_entries v) \<Longrightarrow> size (snd e) < size v"
proof (cases v)
  case (JObj kvs)
  assume "e \<in> set (own_entries v)"
  then show ?thesis using JObj size_entry [of e kvs] by simp
next
  case (JArr xs)
  assume "e \<in> set (own_entries v)"
  then have "(fst e, snd e) \<in> set (zip (map show_nat [0 ..< length xs]) xs)" using JArr by simp
  then have "snd e \<in> set xs" by (rule set_zip_rightD)
  then show ?thesis using JArr size_member [of "snd e" xs] by simp
qed auto


text \<open>
  \<^verbatim>\<open>new Set(...)\<close> keeps first occurrences; members are compared as values, which is
  JavaScript's comparison on strings, numbers, booleans and \<^verbatim>\<open>null\<close> (objects are
  compared by reference there). \<open>iterate\<close> is the array spread \<^verbatim>\<open>[...v]\<close>, which throws
  on a value that is not iterable.
\<close>

definition set_add :: "json list \<Rightarrow> json \<Rightarrow> json list" where
  "set_add xs v = (if v \<in> set xs then xs else xs @ [v])"

fun iterate :: "json \<Rightarrow> json list res" where
  "iterate (JArr xs) = Ret xs"
| "iterate (JStr s) = Ret (map (\<lambda>c. JStr [c]) s)"
| "iterate v = Throw"

text \<open>\<^verbatim>\<open>deepMergeProperties(target, source)\<close> and \<^verbatim>\<open>mergeAllOfSchemas(allOfSchemas)\<close>.\<close>

definition isObjectSchema :: "json \<Rightarrow> bool" where
  "isObjectSchema v =
     (truthy v \<and> typeof v = ''object'' \<and> \<not> isArray v \<and>
      (get v ''type'' = JStr ''object'' \<or> truthy (get v ''properties'')) \<and>
      truthy (get v ''properties''))"

definition merge_required ::
  "json \<Rightarrow> json \<Rightarrow> (string \<times> json) list \<Rightarrow> (string \<times> json) list res" where
  "merge_required targetValue sourceValue m =
     (if truthy (get targetValue ''required'') \<or> truthy (get sourceValue ''required'') then
        bind_res (iterate (or_else (get targetValue ''required'') (JArr []))) (\<lambda>a.
        bind_res (iterate (or_else (get sourceValue ''required'') (JArr []))) (\<lambda>b.
          Ret (if foldl set_add [] (a @ b) \<noteq> []
               then obj_set ''required'' (JArr (foldl set_add [] (a @ b))) m else m)))
      else Ret m)"

function deepMergeProperties :: "json \<Rightarrow> json \<Rightarrow> json res" where
  "deepMergeProperties target source =
     (if \<not> truthy source \<or> typeof source \<noteq> ''object'' then Ret target
      else if \<not> truthy target \<or> typeof target \<noteq> ''object'' then Ret source
      else
        map_res JObj
          (foldl
             (\<lambda>acc e.
                bind_res acc (\<lambda>result.
                  if isObjectSchema (get (JObj result) (fst e)) \<and> isObjectSchema (snd e) then
                    bind_res
                      (deepMergeProperties
                         (get (get (JObj result) (fst e)) ''properties'')
                         (get (snd e) ''properties''))
                      (\<lambda>p.
                         map_res (\<lambda>m. obj_set (fst e) (JObj m) result)
                           (merge_required (get (JObj result) (fst e)) (snd e)
                              (obj_set ''properties'' p
                                 (obj_assign (spread (get (JObj result) (fst e)))
                                    (own_entries (snd e))))))
                  else Ret (obj_set (fst e) (snd e) result)))
             (Ret (spread target)) (own_entries source)))"
  by pat_completeness auto
termination
proof (relation "measure (\<lambda>(target, source). size source)", goal_cases)
  case 1
  show ?case by simp
next
  case (2 target source acc e result)
  then have "size (snd e) < size source"
    using size_own_entries [of source e] by simp
  moreover have "truthy (get (snd e) ''properties'')" and "typeof (snd e) = ''object''"
    using 2 by (simp_all add: isObjectSchema_def)
  then have "size (get (snd e) ''properties'') < size (snd e)"
    using size_get [of "snd e" "''properties''"] truthy_defined by blast
  ultimately show ?case by simp
qed

declare deepMergeProperties.simps [simp del]

definition merge_step ::
  "runtime \<Rightarrow> json \<Rightarrow> (string \<times> json) list \<times> json list \<Rightarrow> json
     \<Rightarrow> ((string \<times> json) list \<times> json list) res" where
  "merge_step rt doc st subSchema =
     (let merged = fst st; requiredFields = snd st; resolved = resolveSchema rt doc subSchema [] in
      if \<not> truthy resolved \<or> typeof resolved \<noteq> ''object'' then Ret st
      else
        bind_res
          (if truthy (get resolved ''properties'') then
             (let merged1 =
                    (if \<not> truthy (get (JObj merged) ''properties'')
                     then obj_set ''properties'' (JObj []) merged else merged)
              in map_res (\<lambda>p. obj_set ''properties'' p merged1)
                   (deepMergeProperties (get (JObj merged1) ''properties'')
                      (get resolved ''properties'')))
           else Ret merged)
          (\<lambda>merged2.
             Ret (foldl
                    (\<lambda>m key. if key \<noteq> ''properties'' \<and> key \<noteq> ''required''
                              then obj_set key (get resolved key) m else m)
                    merged2 (own_keys resolved),
                  if isArray (get resolved ''required'')
                  then foldl set_add requiredFields (elems (get resolved ''required''))
                  else requiredFields)))"

fun merge_loop ::
  "runtime \<Rightarrow> json \<Rightarrow> (string \<times> json) list \<times> json list \<Rightarrow> json list
     \<Rightarrow> ((string \<times> json) list \<times> json list) res" where
  "merge_loop rt doc st [] = Ret st"
| "merge_loop rt doc st (subSchema # rest) =
     bind_res (merge_step rt doc st subSchema) (\<lambda>st'. merge_loop rt doc st' rest)"

definition mergeAllOfSchemas :: "runtime \<Rightarrow> json \<Rightarrow> json \<Rightarrow> json res" where
  "mergeAllOfSchemas rt doc allOfSchemas =
     (if \<not> isArray allOfSchemas \<or> elems allOfSchemas = [] then Ret (JObj [])
      else
        map_res
          (\<lambda>st. JObj (if snd st \<noteq> [] then obj_set ''required'' (JArr (snd st)) (fst st)
                      else fst st))
          (merge_loop rt doc ([], []) (elems allOfSchemas)))"

section \<open>Types and coercion\<close>

definition getSchemaType :: "json \<Rightarrow> json" where
  "getSchemaType schema =
     (if \<not> truthy schema \<or> typeof schema \<noteq> ''object'' then JUndefined
      else if isArray (get schema ''type'') then get (get schema ''type'') ''0''
      else get schema ''type'')"

definition coerceValue :: "runtime \<Rightarrow> json \<Rightarrow> json \<Rightarrow> json" where
  "coerceValue rt raw type =
     (if raw = JUndefined \<or> raw = JNull then JUndefined
      else if type = JStr ''string'' \<and> raw = JStr [] then raw
      else if raw = JStr [] \<and> type \<noteq> JStr ''string'' then JUndefined
      else if type = JStr ''number'' then
        (case to_number rt raw of Some n \<Rightarrow> JNum n | None \<Rightarrow> JUndefined)
      else if type = JStr ''integer'' then
        (case to_number rt raw of
           Some n \<Rightarrow> if is_integer n then JNum n else JUndefined
         | None \<Rightarrow> JUndefined)
      else if type = JStr ''boolean'' then
        (if raw = JStr ''true'' \<or> raw = JBool True then JBool True
         else if raw = JStr ''false'' \<or> raw = JBool False then JBool False
         else JUndefined)
      else if type = JStr ''null'' then (if raw = JStr ''null'' then JNull else JUndefined)
      else raw)"

text \<open>\<^verbatim>\<open>deducePrimitiveType(schema)\<close>: the kind of a leaf with no \<^verbatim>\<open>type\<close> keyword.\<close>

definition number_is_integer :: "json \<Rightarrow> bool" where
  "number_is_integer v = (case v of JNum n \<Rightarrow> is_integer n | _ \<Rightarrow> False)"

definition kind_of_sample :: "json \<Rightarrow> json" where
  "kind_of_sample sample =
     (if typeof sample = ''boolean'' then JStr ''boolean''
      else if typeof sample = ''number'' \<and> number_is_integer sample then JStr ''integer''
      else if typeof sample = ''number'' then JStr ''number''
      else if sample = JNull then JStr ''null''
      else JStr ''string'')"

definition deducePrimitiveType :: "json \<Rightarrow> json" where
  "deducePrimitiveType schema =
     (if \<not> truthy schema then JStr ''string''
      else if truthy (getSchemaType schema) then getSchemaType schema
      else if get schema ''const'' \<noteq> JUndefined then kind_of_sample (get schema ''const'')
      else if isArray (get schema ''enum'') \<and> elems (get schema ''enum'') \<noteq> [] then
        (case find (\<lambda>v. v \<noteq> JNull \<and> v \<noteq> JUndefined) (elems (get schema ''enum'')) of
           None \<Rightarrow> JStr ''string''
         | Some sample \<Rightarrow> kind_of_sample sample)
      else JStr ''string'')"

section \<open>The form\<close>

text \<open>
  The editor keeps the values the user entered in the page itself: the form is a tree of
  elements, and the collector reads it back through \<^verbatim>\<open>data-*\<close> attributes and class names.
  An element carries what those queries read: its kind of control (none, a text input, a
  number input, or a select with its option values), its classes, its \<^verbatim>\<open>dataset\<close>, its
  current value and its children. Text content, ids, titles and the enabled state of
  buttons are left out: no query of the program reads them.
\<close>

datatype control = Plain | TextInput | NumberInput | Select "string list"

datatype elem =
  Elem (e_kind: control) (e_cls: "string list") (e_data: "(string \<times> string) list")
    (e_val: string) (e_kids: "elem list")

fun descendants :: "elem \<Rightarrow> elem list" where
  "descendants (Elem k c d v ks) = concat (map (\<lambda>x. x # descendants x) ks)"

definition attr :: "elem \<Rightarrow> string \<Rightarrow> string option" where
  "attr e k = map_of (e_data e) k"

definition set_attr :: "string \<Rightarrow> string \<Rightarrow> elem \<Rightarrow> elem" where
  "set_attr k v e =
     Elem (e_kind e) (e_cls e)
       (if k \<in> set (map fst (e_data e))
        then map (\<lambda>p. if fst p = k then (k, v) else p) (e_data e)
        else e_data e @ [(k, v)])
       (e_val e) (e_kids e)"

definition set_kids :: "elem list \<Rightarrow> elem \<Rightarrow> elem" where
  "set_kids ks e = Elem (e_kind e) (e_cls e) (e_data e) (e_val e) ks"

definition has_class :: "string \<Rightarrow> elem \<Rightarrow> bool" where
  "has_class c e = (c \<in> set (e_cls e))"

definition query_attr :: "string \<Rightarrow> string \<Rightarrow> elem \<Rightarrow> elem option" where
  "query_attr k v e = find (\<lambda>x. attr x k = Some v) (descendants e)"

definition getOneOfContainer :: "elem \<Rightarrow> string \<Rightarrow> elem option" where
  "getOneOfContainer form path = query_attr ''oneOfPath'' path form"

definition getArrayContainer :: "elem \<Rightarrow> string \<Rightarrow> elem option" where
  "getArrayContainer form path = query_attr ''arrayPath'' path form"

definition array_items :: "elem \<Rightarrow> elem list" where
  "array_items container = filter (has_class ''array-item'') (e_kids container)"

definition elem_value :: "elem \<Rightarrow> json" where
  "elem_value e = (if e_kind e = Plain then JUndefined else JStr (e_val e))"

text \<open>
  Assigning \<^verbatim>\<open>control.value\<close>: a select keeps only the value of one of its options, a
  number input only a valid floating-point number, a text input drops line breaks.
\<close>

definition is_digit :: "char \<Rightarrow> bool" where
  "is_digit c = (digit_of c \<noteq> None)"

definition valid_exponent :: "string \<Rightarrow> bool" where
  "valid_exponent s =
     (case s of
        [] \<Rightarrow> True
      | e # r \<Rightarrow>
          (e = CHR ''e'' \<or> e = CHR ''E'') \<and>
          (case r of
             [] \<Rightarrow> False
           | c # r' \<Rightarrow>
               (if c = CHR ''-'' \<or> c = CHR ''+'' then r' \<noteq> [] \<and> list_all is_digit r'
                else list_all is_digit r)))"

definition valid_float :: "string \<Rightarrow> bool" where
  "valid_float s =
     (let s1 = (case s of c # r \<Rightarrow> if c = CHR ''-'' then r else s | [] \<Rightarrow> s);
          ip = takeWhile is_digit s1;
          r1 = dropWhile is_digit s1
      in (case r1 of
            c # r \<Rightarrow>
              if c = CHR ''.''
              then takeWhile is_digit r \<noteq> [] \<and> valid_exponent (dropWhile is_digit r)
              else ip \<noteq> [] \<and> valid_exponent r1
          | [] \<Rightarrow> ip \<noteq> []))"

definition assign_value :: "control \<Rightarrow> string \<Rightarrow> string" where
  "assign_value k v =
     (case k of
        Select opts \<Rightarrow> if v \<in> set opts then v else []
      | NumberInput \<Rightarrow> if valid_float v then v else []
      | TextInput \<Rightarrow> filter (\<lambda>c. c \<noteq> CHR 0x0A \<and> c \<noteq> CHR 0x0D) v
      | Plain \<Rightarrow> v)"

definition stringifySchemaValue :: "runtime \<Rightarrow> json \<Rightarrow> string" where
  "stringifySchemaValue rt v =
     (if typeof v = ''string'' then to_string rt v
      else if typeof v = ''number'' \<or> typeof v = ''boolean'' then to_string rt v
      else if v = JNull then ''null''
      else JSON_stringify rt v)"

definition message :: "string \<Rightarrow> elem" where
  "message variant = Elem Plain [''helper-text'', variant] [] [] []"

definition plain :: "string list \<Rightarrow> elem list \<Rightarrow> elem" where
  "plain cs ks = Elem Plain cs [] [] ks"

definition createPrimitiveField :: "runtime \<Rightarrow> json \<Rightarrow> string \<Rightarrow> bool \<Rightarrow> elem" where
  "createPrimitiveField rt schema path isRequired =
     (let fieldType = deducePrimitiveType schema;
          constValue = get schema ''const'';
          kind =
            (if isArray (get schema ''enum'') then
               Select ([] # map (stringifySchemaValue rt) (elems (get schema ''enum'')) @
                 (if constValue \<noteq> JUndefined \<and> constValue \<notin> set (elems (get schema ''enum''))
                  then [stringifySchemaValue rt constValue] else []))
             else if fieldType = JStr ''boolean'' then Select [[], ''true'', ''false'']
             else if fieldType = JStr ''null'' then Select [[], ''null'']
             else if fieldType = JStr ''number'' \<or> fieldType = JStr ''integer'' then NumberInput
             else TextInput);
          pat =
            (if (kind = NumberInput \<or> kind = TextInput) \<and> truthy (get schema ''pattern'')
             then [(''validationPattern'', to_string rt (get schema ''pattern''))] else []);
          ds = pat @
            [(''schemaPath'', path),
             (''schemaType'', to_string rt (or_else fieldType (JStr ''string''))),
             (''required'', if isRequired then ''true'' else ''false'')];
          v =
            (if constValue \<noteq> JUndefined then assign_value kind (stringifySchemaValue rt constValue)
             else if get schema ''default'' \<noteq> JUndefined then
               assign_value kind
                 (if typeof (get schema ''default'') = ''object''
                  then JSON_stringify rt (get schema ''default'')
                  else to_string rt (get schema ''default''))
             else [])
      in plain [] [Elem kind (if constValue \<noteq> JUndefined then [''const-input''] else []) ds v []])"

text \<open>
  \<^verbatim>\<open>required.includes(key)\<close>: membership in an array, substring of a string, and a
  \<^verbatim>\<open>TypeError\<close> on any other value, which has no such method.
\<close>

definition is_substring :: "string \<Rightarrow> string \<Rightarrow> bool" where
  "is_substring k s = list_ex (\<lambda>i. take (length k) (drop i s) = k) [0 ..< Suc (length s)]"

fun includes_js :: "json \<Rightarrow> string \<Rightarrow> bool res" where
  "includes_js (JArr xs) k = Ret (JStr k \<in> set xs)"
| "includes_js (JStr s) k = Ret (is_substring k s)"
| "includes_js v k = Throw"

fun mapM_res :: "('a \<Rightarrow> 'b res) \<Rightarrow> 'a list \<Rightarrow> 'b list res" where
  "mapM_res f [] = Ret []"
| "mapM_res f (x # xs) = bind_res (f x) (\<lambda>y. bind_res (mapM_res f xs) (\<lambda>ys. Ret (y # ys)))"

fun repeat_res :: "nat \<Rightarrow> ('a \<Rightarrow> 'a res) \<Rightarrow> 'a \<Rightarrow> 'a res" where
  "repeat_res 0 f x = Ret x"
| "repeat_res (Suc k) f x = bind_res (f x) (repeat_res k f)"

text \<open>
  The number of slots \<^verbatim>\<open>createArrayField\<close> opens: the loop
  \<^verbatim>\<open>for (i = 0; i < initialItems; i += 1)\<close> with
  \<^verbatim>\<open>initialItems = schema.minItems ? Math.min(schema.minItems, 5) : 0\<close>.
\<close>

definition initialItems :: "runtime \<Rightarrow> json \<Rightarrow> nat" where
  "initialItems rt schema =
     (if truthy (get schema ''minItems'') then
        (case to_number rt (get schema ''minItems'') of
           None \<Rightarrow> 0
         | Some m \<Rightarrow> nat \<lceil>min m 5\<rceil>)
      else 0)"

definition createPatternPropertiesField :: "runtime \<Rightarrow> json \<Rightarrow> string \<Rightarrow> elem" where
  "createPatternPropertiesField rt schema path =
     (let patternProperties = or_else (get schema ''patternProperties'') (JObj []);
          ents = own_entries patternProperties;
          ds = [(''patternPath'', path)] @
               concat (map (\<lambda>(i, e).
                  [(''pattern'' @ show_nat i, fst e),
                   (''schema'' @ show_nat i, JSON_stringify rt (snd e))])
                 (zip [0 ..< length ents] ents)) @
               [(''patternCount'', show_nat (length ents))]
      in plain [''schema-field'', ''schema-pattern-properties'']
           ([plain [''pattern-properties-title''] []] @
            (if truthy (get schema ''description'') then [plain [''helper-text''] []] else []) @
            [Elem Plain [''pattern-properties-entries''] ds [] [],
             plain [''app-button'', ''secondary''] []]))"

text \<open>
  The functions that build the form call each other along the schema, and a schema that
  refers to itself makes them recurse without end; the fuel \<open>n\<close> bounds the depth of
  calls. Each returns the elements it appends to its container; \<open>renderVariant\<close> returns
  the selector and the options container of its oneOf field, \<open>addArrayItem\<close> the items
  container with the new item.
\<close>

function buildFields :: "runtime \<Rightarrow> json \<Rightarrow> nat \<Rightarrow> json \<Rightarrow> string \<Rightarrow> json \<Rightarrow> elem list res"
and createControlForSchema :: "runtime \<Rightarrow> json \<Rightarrow> nat \<Rightarrow> json \<Rightarrow> string \<Rightarrow> bool \<Rightarrow> elem list res"
and createOneOfField :: "runtime \<Rightarrow> json \<Rightarrow> nat \<Rightarrow> json \<Rightarrow> string \<Rightarrow> bool \<Rightarrow> elem list res"
and renderVariant :: "runtime \<Rightarrow> json \<Rightarrow> nat \<Rightarrow> json \<Rightarrow> string \<Rightarrow> bool \<Rightarrow> nat \<Rightarrow> elem \<times> elem \<Rightarrow> (elem \<times> elem) res"
and createAllOfField :: "runtime \<Rightarrow> json \<Rightarrow> nat \<Rightarrow> json \<Rightarrow> string \<Rightarrow> json \<Rightarrow> elem list res"
and createArrayField :: "runtime \<Rightarrow> json \<Rightarrow> nat \<Rightarrow> json \<Rightarrow> string \<Rightarrow> bool \<Rightarrow> elem list res"
and addArrayItem :: "runtime \<Rightarrow> json \<Rightarrow> nat \<Rightarrow> elem \<Rightarrow> json \<Rightarrow> string \<Rightarrow> elem res"
where
  "buildFields rt doc 0 schema path required = OutOfFuel"
| "buildFields rt doc (Suc n) schema path required =
     (if \<not> truthy schema then Ret []
      else if \<not> truthy (resolveSchema rt doc schema []) then Ret []
      else if truthy (get (resolveSchema rt doc schema []) ''__alwaysInvalid'') then Ret [message ''error'']
      else if truthy (get (resolveSchema rt doc schema []) ''__unresolvedRef'') then Ret [message ''error'']
      else if truthy (get (resolveSchema rt doc schema []) ''__circularRef'') then Ret [message ''error'']
      else
        (let effective = resolveSchema rt doc schema []; type = getSchemaType effective in
         if isArray (get effective ''oneOf'') \<and> elems (get effective ''oneOf'') \<noteq> [] then
           createOneOfField rt doc n effective path False
         else if isArray (get effective ''allOf'') \<and> elems (get effective ''allOf'') \<noteq> [] then
           createAllOfField rt doc n effective path required
         else if truthy (get effective ''anyOf'') \<or> truthy (get effective ''allOf'') then
           Ret [message ''error'']
         else if type = JStr ''object'' \<or> (\<not> truthy type \<and> truthy (get effective ''properties''))
                 \<or> (\<not> truthy type \<and> truthy (get effective ''patternProperties'')) then
           bind_res
             (mapM_res
                (\<lambda>e.
                   bind_res (includes_js (or_else (get effective ''required'') (JArr [])) (fst e))
                     (\<lambda>isRequired.
                        bind_res
                          (createControlForSchema rt doc n (snd e)
                             (if path = ''root'' then fst e else path @ ''.'' @ fst e) isRequired)
                          (\<lambda>ks.
                             Ret (plain [''schema-field'']
                                    ([plain [] []] @
                                     (if truthy (resolveSchema rt doc (snd e) []) \<and>
                                         truthy (get (resolveSchema rt doc (snd e) []) ''description'')
                                      then [plain [''helper-text''] []] else []) @
                                     ks)))))
                (own_entries (or_else (get effective ''properties'') (JObj []))))
             (\<lambda>fields.
                Ret (fields @
                     (if own_keys (or_else (get effective ''patternProperties'') (JObj [])) \<noteq> []
                      then [createPatternPropertiesField rt effective path] else [])))
         else
           bind_res (includes_js required path)
             (\<lambda>isRequired. createControlForSchema rt doc n effective path isRequired)))"
| "createControlForSchema rt doc 0 schema path isRequired = OutOfFuel"
| "createControlForSchema rt doc (Suc n) schema path isRequired =
     (let effective = resolveSchema rt doc schema []; type = getSchemaType effective in
      if \<not> truthy effective then Ret []
      else if truthy (get effective ''__alwaysInvalid'') then Ret [message ''error'']
      else if truthy (get effective ''__unresolvedRef'') then Ret [message ''error'']
      else if truthy (get effective ''__circularRef'') then Ret [message ''error'']
      else if isArray (get effective ''oneOf'') \<and> elems (get effective ''oneOf'') \<noteq> [] then
        createOneOfField rt doc n effective path isRequired
      else if type = JStr ''object'' \<or> (\<not> truthy type \<and> truthy (get effective ''properties'')) then
        bind_res
          (buildFields rt doc n effective path (or_else (get effective ''required'') (JArr [])))
          (\<lambda>ks. Ret [Elem Plain [''schema-fieldset''] [(''schemaPath'', path)] []
                        (plain [] [] # ks)])
      else if type = JStr ''array'' then createArrayField rt doc n effective path isRequired
      else if path = ''root'' then
        Ret [plain [''schema-field''] [plain [] [], createPrimitiveField rt effective path isRequired]]
      else Ret [createPrimitiveField rt effective path isRequired])"
| "createOneOfField rt doc 0 schema path isRequired = OutOfFuel"
| "createOneOfField rt doc (Suc n) schema path isRequired =
     bind_res
       (renderVariant rt doc n schema path isRequired 0
          (Elem (Select (map show_nat [0 ..< length (elems (get schema ''oneOf''))]))
             [''schema-oneof-select''] [] (show_nat 0) [],
           Elem Plain [''schema-oneof-options''] [(''oneOfPath'', path)] [] []))
       (\<lambda>so.
          Ret [plain [''schema-oneof'']
                 ((if truthy (get schema ''description'') then [plain [''helper-text''] []] else []) @
                  [fst so, snd so])])"
| "renderVariant rt doc 0 schema path isRequired index so = OutOfFuel"
| "renderVariant rt doc (Suc n) schema path isRequired index so =
     bind_res
       (createControlForSchema rt doc n
          (or_else (get (get schema ''oneOf'') (show_nat index)) (get (get schema ''oneOf'') ''0''))
          path isRequired)
       (\<lambda>ks.
          Ret (Elem (e_kind (fst so)) (e_cls (fst so)) (e_data (fst so))
                 (assign_value (e_kind (fst so)) (show_nat index)) (e_kids (fst so)),
               set_kids ks (set_attr ''selectedVariant'' (show_nat index) (snd so))))"
| "createAllOfField rt doc 0 schema path required = OutOfFuel"
| "createAllOfField rt doc (Suc n) schema path required =
     bind_res (mergeAllOfSchemas rt doc (get schema ''allOf''))
       (\<lambda>mergedSchema.
          if truthy (get schema ''description'') then
            bind_res (buildFields rt doc n mergedSchema path required)
              (\<lambda>ks. Ret [plain [''schema-allof''] (plain [''helper-text''] [] # ks)])
          else buildFields rt doc n mergedSchema path required)"
| "createArrayField rt doc 0 schema path isRequired = OutOfFuel"
| "createArrayField rt doc (Suc n) schema path isRequired =
     bind_res
       (repeat_res (initialItems rt schema)
          (\<lambda>c. addArrayItem rt doc n c (get schema ''items'') path)
          (Elem Plain [''array-items'']
             ([(''arrayPath'', path)] @
              (if get schema ''minItems'' \<noteq> JUndefined
               then [(''minItems'', to_string rt (get schema ''minItems''))] else []) @
              (if get schema ''maxItems'' \<noteq> JUndefined
               then [(''maxItems'', to_string rt (get schema ''maxItems''))] else []))
             [] []))
       (\<lambda>itemsContainer.
          Ret [plain [''schema-field'', ''schema-array'']
                 [itemsContainer, plain [''app-button'', ''secondary''] []]])"
| "addArrayItem rt doc 0 container itemSchema path = OutOfFuel"
| "addArrayItem rt doc (Suc n) container itemSchema path =
     (let itemPath = path @ ''['' @ show_nat (length (array_items container)) @ '']'';
          effectiveItemSchema = resolveSchema rt doc itemSchema [];
          itemType = getSchemaType effectiveItemSchema
      in bind_res
           (if truthy (get effectiveItemSchema ''__alwaysInvalid'') then
              Ret (plain [''helper-text'', ''error''] [])
            else if truthy (get effectiveItemSchema ''__unresolvedRef'') then
              Ret (plain [''helper-text'', ''error''] [])
            else if itemType = JStr ''object'' \<or>
                    (\<not> truthy itemType \<and> truthy (get effectiveItemSchema ''properties'')) then
              map_res (plain []) (createControlForSchema rt doc n effectiveItemSchema itemPath False)
            else if itemType = JStr ''array'' then
              map_res (plain []) (createControlForSchema rt doc n effectiveItemSchema itemPath False)
            else
              Ret (createPrimitiveField rt
                     (JObj (obj_set ''type''
                        (or_else itemType (or_else (get effectiveItemSchema ''type'') (JStr ''string'')))
                        (spread effectiveItemSchema)))
                     itemPath False))
           (\<lambda>body.
              Ret (set_kids
                     (e_kids container @
                      [Elem Plain [''array-item''] [(''schemaPath'', itemPath)] []
                         [body,
                          plain [''array-item-controls'']
                            [plain [''app-button'', ''ghost'', ''small''] []]]])
                     container)))"
  by pat_completeness auto
termination
  by (relation "measure (\<lambda>x. case x of
        Inl (Inl t) \<Rightarrow> fst (snd (snd t))
      | Inl (Inr (Inl t)) \<Rightarrow> fst (snd (snd t))
      | Inl (Inr (Inr t)) \<Rightarrow> fst (snd (snd t))
      | Inr (Inl (Inl t)) \<Rightarrow> fst (snd (snd t))
      | Inr (Inl (Inr t)) \<Rightarrow> fst (snd (snd t))
      | Inr (Inr (Inl t)) \<Rightarrow> fst (snd (snd t))
      | Inr (Inr (Inr t)) \<Rightarrow> fst (snd (snd t)))") simp_all

declare buildFields.simps [simp del] createControlForSchema.simps [simp del]
  createOneOfField.simps [simp del] renderVariant.simps [simp del]
  createAllOfField.simps [simp del] createArrayField.simps [simp del]
  addArrayItem.simps [simp del]

text \<open>\<^verbatim>\<open>renderSchemaForm(schema)\<close>: the new content of the form element.\<close>

definition renderSchemaForm :: "runtime \<Rightarrow> json \<Rightarrow> nat \<Rightarrow> json \<Rightarrow> elem res" where
  "renderSchemaForm rt doc n schema =
     (let effective = resolveSchema rt doc schema [] in
      if \<not> truthy effective \<or> typeof effective \<noteq> ''object'' then Ret (plain [] [])
      else if truthy (get effective ''__alwaysInvalid'') then Ret (plain [] [])
      else if truthy (get effective ''__unresolvedRef'') then Ret (plain [] [])
      else if truthy (get effective ''__circularRef'') then Ret (plain [] [])
      else
        bind_res
          (buildFields rt doc n effective ''root'' (or_else (get effective ''required'') (JArr [])))
          (\<lambda>ks.
             Ret (plain []
                    [plain [''schema-fieldset'']
                       ((if truthy (get effective ''title'') then [plain [] []] else []) @
                        [plain [''helper-text''] []] @ ks)])))"

definition trim :: "string \<Rightarrow> string" where
  "trim s =
     (let ws = (\<lambda>c. c \<in> set [CHR 0x09, CHR 0x0A, CHR 0x0B, CHR 0x0C, CHR 0x0D, CHR '' ''])
      in rev (dropWhile ws (rev (dropWhile ws s))))"


subsection \<open>Array buttons and renumbering\<close>

text \<open>
  \<^verbatim>\<open>s.replace(pat, repl)\<close> with a string pattern: the first occurrence is replaced, and
  the replacement text is expanded (\<^verbatim>\<open>$$\<close>, \<^verbatim>\<open>$&\<close>, and the text before and after the
  match).
\<close>

fun find_sub :: "string \<Rightarrow> string \<Rightarrow> nat option" where
  "find_sub [] pat = (if pat = [] then Some 0 else None)"
| "find_sub (c # s) pat =
     (if take (length pat) (c # s) = pat then Some 0
      else (case find_sub s pat of None \<Rightarrow> None | Some i \<Rightarrow> Some (Suc i)))"

fun expand_replacement :: "string \<Rightarrow> string \<Rightarrow> string \<Rightarrow> string \<Rightarrow> string" where
  "expand_replacement matched pre post (a # b # r) =
     (if a = CHR ''$'' \<and> b = CHR ''$'' then CHR ''$'' # expand_replacement matched pre post r
      else if a = CHR ''$'' \<and> b = CHR ''&'' then matched @ expand_replacement matched pre post r
      else if a = CHR ''$'' \<and> b = CHR 0x60 then pre @ expand_replacement matched pre post r
      else if a = CHR ''$'' \<and> b = CHR 0x27 then post @ expand_replacement matched pre post r
      else a # expand_replacement matched pre post (b # r))"
| "expand_replacement matched pre post r = r"

definition js_replace :: "string \<Rightarrow> string \<Rightarrow> string \<Rightarrow> string" where
  "js_replace s pat repl =
     (case find_sub s pat of
        None \<Rightarrow> s
      | Some i \<Rightarrow>
          take i s @ expand_replacement pat (take i s) (drop (i + length pat) s) repl @
          drop (i + length pat) s)"

text \<open>
  \<^verbatim>\<open>renumberArrayItems(container, arrayPath)\<close>: each item gets the path of its new index,
  and the paths inside it are rewritten: \<^verbatim>\<open>data-schema-path\<close> when it is the old item path
  or continues it with \<^verbatim>\<open>.\<close> or \<^verbatim>\<open>[\<close>; \<^verbatim>\<open>data-array-path\<close> and \<^verbatim>\<open>data-one-of-path\<close> only
  when they continue it.
\<close>

definition rewrite_path :: "bool \<Rightarrow> string option \<Rightarrow> string \<Rightarrow> string \<Rightarrow> string" where
  "rewrite_path exact oldPath newPath currentPath =
     (let old = (case oldPath of Some p \<Rightarrow> p | None \<Rightarrow> ''undefined'') in
      if exact \<and> Some currentPath = oldPath then newPath
      else if startsWith currentPath (old @ ''.'') then js_replace currentPath old newPath
      else if startsWith currentPath (old @ ''['') then js_replace currentPath old newPath
      else currentPath)"

definition rewrite_attr :: "bool \<Rightarrow> string \<Rightarrow> string option \<Rightarrow> string \<Rightarrow> elem \<Rightarrow> elem" where
  "rewrite_attr exact k oldPath newPath e =
     (case attr e k of
        None \<Rightarrow> e
      | Some currentPath \<Rightarrow>
          if currentPath = [] then e
          else set_attr k (rewrite_path exact oldPath newPath currentPath) e)"

fun rewrite_tree :: "string option \<Rightarrow> string \<Rightarrow> elem \<Rightarrow> elem" where
  "rewrite_tree oldPath newPath (Elem k c d v ks) =
     rewrite_attr False ''oneOfPath'' oldPath newPath
       (rewrite_attr False ''arrayPath'' oldPath newPath
          (rewrite_attr True ''schemaPath'' oldPath newPath
             (Elem k c d v (map (rewrite_tree oldPath newPath) ks))))"

definition renumber_item :: "string \<Rightarrow> nat \<Rightarrow> elem \<Rightarrow> elem" where
  "renumber_item arrayPath newIndex item =
     (let newPath = arrayPath @ ''['' @ show_nat newIndex @ '']'' in
      set_kids (map (rewrite_tree (attr item ''schemaPath'') newPath) (e_kids item))
        (set_attr ''schemaPath'' newPath item))"

fun renumber_items :: "string \<Rightarrow> nat \<Rightarrow> elem list \<Rightarrow> elem list" where
  "renumber_items arrayPath newIndex [] = []"
| "renumber_items arrayPath newIndex (item # rest) =
     (if has_class ''array-item'' item
      then renumber_item arrayPath newIndex item # renumber_items arrayPath (Suc newIndex) rest
      else item # renumber_items arrayPath newIndex rest)"

definition renumberArrayItems :: "elem \<Rightarrow> string \<Rightarrow> elem" where
  "renumberArrayItems container arrayPath =
     set_kids (renumber_items arrayPath 0 (e_kids container)) container"

fun remove_item :: "nat \<Rightarrow> elem list \<Rightarrow> elem list" where
  "remove_item i [] = []"
| "remove_item i (item # rest) =
     (if has_class ''array-item'' item
      then (case i of 0 \<Rightarrow> rest | Suc j \<Rightarrow> item # remove_item j rest)
      else item # remove_item i rest)"

text \<open>The click handlers: \<open>None\<close> is a refused click (a message is shown, nothing changes).\<close>

definition remove_click :: "runtime \<Rightarrow> elem \<Rightarrow> string \<Rightarrow> nat \<Rightarrow> elem option" where
  "remove_click rt container path i =
     (case js_parseInt rt (case attr container ''minItems'' of Some s \<Rightarrow> s | None \<Rightarrow> ''undefined'') of
        Some minItems \<Rightarrow>
          if int (length (array_items container)) \<le> minItems then None
          else Some (renumberArrayItems (set_kids (remove_item i (e_kids container)) container) path)
      | None \<Rightarrow>
          Some (renumberArrayItems (set_kids (remove_item i (e_kids container)) container) path))"

definition add_click :: "runtime \<Rightarrow> json \<Rightarrow> nat \<Rightarrow> json \<Rightarrow> string \<Rightarrow> elem \<Rightarrow> elem option res" where
  "add_click rt doc n schema path itemsContainer =
     (if get schema ''maxItems'' \<noteq> JUndefined \<and>
         (case to_number rt (get schema ''maxItems'') of
            Some maxItems \<Rightarrow> maxItems \<le> of_nat (length (array_items itemsContainer))
          | None \<Rightarrow> False)
      then Ret None
      else map_res Some (addArrayItem rt doc n itemsContainer (get schema ''items'') path))"

section \<open>Collecting the document\<close>

definition isMeaningful :: "json \<Rightarrow> bool" where
  "isMeaningful v =
     (\<not> (typeof v = ''string'' \<and> v = JStr []) \<and>
      \<not> (isArray v \<and> elems v = []) \<and>
      \<not> (typeof v = ''object'' \<and> v \<noteq> JNull \<and> own_keys v = []))"

text \<open>
  \<^verbatim>\<open>collectData(schema, path)\<close> and \<^verbatim>\<open>collectPatternPropertiesData(schema, path)\<close>, with
  fuel for the same reason as the builders. \<open>JUndefined\<close> is \<^verbatim>\<open>undefined\<close>: no value.
\<close>

definition selectedVariant :: "runtime \<Rightarrow> elem \<Rightarrow> string \<Rightarrow> json \<Rightarrow> json" where
  "selectedVariant rt form path oneOf =
     (case (case getOneOfContainer form path of
              Some c \<Rightarrow>
                js_Number rt (case attr c ''selectedVariant'' of
                               Some s \<Rightarrow> if s = [] then ''0'' else s
                             | None \<Rightarrow> ''0'')
            | None \<Rightarrow> Some 0) of
        Some q \<Rightarrow> if is_integer q \<and> 0 \<le> q then get oneOf (show_nat (nat \<lfloor>q\<rfloor>)) else JUndefined
      | None \<Rightarrow> JUndefined)"

definition primitive_item_types :: "json list" where
  "primitive_item_types = [JStr ''string'', JStr ''number'', JStr ''integer'', JStr ''boolean'']"

function collectData :: "runtime \<Rightarrow> json \<Rightarrow> elem \<Rightarrow> nat \<Rightarrow> json \<Rightarrow> string \<Rightarrow> json res"
and collectPatternPropertiesData ::
  "runtime \<Rightarrow> json \<Rightarrow> elem \<Rightarrow> nat \<Rightarrow> json \<Rightarrow> string \<Rightarrow> (string \<times> json) list res"
where
  "collectData rt doc form 0 schema path = OutOfFuel"
| "collectData rt doc form (Suc n) schema path =
     (if \<not> truthy schema then Ret JUndefined
      else if \<not> truthy (resolveSchema rt doc schema []) then Ret JUndefined
      else if truthy (get (resolveSchema rt doc schema []) ''__alwaysInvalid'') then Ret JUndefined
      else
        (let effective = resolveSchema rt doc schema []; type = getSchemaType effective in
         if isArray (get effective ''oneOf'') \<and> elems (get effective ''oneOf'') \<noteq> [] then
           collectData rt doc form n
             (or_else (selectedVariant rt form path (get effective ''oneOf''))
                (get (get effective ''oneOf'') ''0''))
             path
         else if isArray (get effective ''allOf'') \<and> elems (get effective ''allOf'') \<noteq> [] then
           bind_res (mergeAllOfSchemas rt doc (get effective ''allOf''))
             (\<lambda>mergedSchema. collectData rt doc form n mergedSchema path)
         else if type = JStr ''object'' \<or> (\<not> truthy type \<and> truthy (get effective ''properties''))
                 \<or> (\<not> truthy type \<and> truthy (get effective ''patternProperties'')) then
           bind_res
             (foldl
                (\<lambda>acc e.
                   bind_res acc (\<lambda>st.
                     bind_res
                       (collectData rt doc form n (snd e)
                          (if path = ''root'' then fst e else path @ ''.'' @ fst e))
                       (\<lambda>v. Ret (if v \<noteq> JUndefined \<and> isMeaningful v
                                  then (obj_set (fst e) v (fst st), True) else st))))
                (Ret ([], False))
                (own_entries (or_else (get effective ''properties'') (JObj []))))
             (\<lambda>st.
                bind_res
                  (if own_keys (or_else (get effective ''patternProperties'') (JObj [])) \<noteq> []
                   then
                     map_res
                       (\<lambda>patternData.
                          if patternData \<noteq> [] then (obj_assign (fst st) patternData, True) else st)
                       (collectPatternPropertiesData rt doc form n effective path)
                   else Ret st)
                  (\<lambda>st'.
                     Ret (if path = ''root'' then JObj (fst st')
                          else if snd st' then JObj (fst st') else JUndefined)))
         else if type = JStr ''array'' then
           (case getArrayContainer form path of
              None \<Rightarrow> Ret (if path = ''root'' then JArr [] else JUndefined)
            | Some itemsContainer \<Rightarrow>
                (let itemsSchema =
                       (if get effective ''items'' \<noteq> JUndefined then get effective ''items''
                        else get schema ''items'')
                 in bind_res
                      (foldl
                         (\<lambda>acc ie.
                            bind_res acc (\<lambda>vals.
                              if truthy (get itemsSchema ''type'') \<and>
                                 get itemsSchema ''type'' \<in> set primitive_item_types then
                                (case query_attr ''schemaPath''
                                        (path @ ''['' @ show_nat (fst ie) @ '']'') (snd ie) of
                                   Some inputElement \<Rightarrow>
                                     (let childValue =
                                            coerceValue rt (elem_value inputElement)
                                              (get itemsSchema ''type'')
                                      in Ret (if childValue \<noteq> JUndefined \<and> childValue \<noteq> JStr []
                                              then vals @ [childValue] else vals))
                                 | None \<Rightarrow> Ret vals)
                              else
                                bind_res
                                  (collectData rt doc form n (or_else itemsSchema (JObj []))
                                     (path @ ''['' @ show_nat (fst ie) @ '']''))
                                  (\<lambda>childValue.
                                     Ret (if childValue \<noteq> JUndefined then vals @ [childValue]
                                          else vals))))
                         (Ret [])
                         (zip [0 ..< length (array_items itemsContainer)]
                            (array_items itemsContainer)))
                      (\<lambda>vals.
                         Ret (if path = ''root'' then JArr vals
                              else if vals \<noteq> [] then JArr vals else JUndefined))))
         else
           (case query_attr ''schemaPath'' path form of
              None \<Rightarrow> Ret JUndefined
            | Some control \<Rightarrow>
                Ret (coerceValue rt (elem_value control) (or_else type (JStr ''string''))))))"
| "collectPatternPropertiesData rt doc form 0 schema path = OutOfFuel"
| "collectPatternPropertiesData rt doc form (Suc n) schema path =
     (let patternProperties = or_else (get schema ''patternProperties'') (JObj []) in
      case query_attr ''patternPath'' path form of
        None \<Rightarrow> Ret []
      | Some container \<Rightarrow>
          foldl
            (\<lambda>acc ie.
               bind_res acc (\<lambda>result.
                 case find (\<lambda>x. attr x ''patternPropertyName'' \<noteq> None) (descendants (snd ie)) of
                   None \<Rightarrow> Ret result
                 | Some nameInput \<Rightarrow>
                     if trim (e_val nameInput) = [] then Ret result
                     else
                       (case find (\<lambda>pattern. regex_test rt pattern (trim (e_val nameInput)))
                               (own_keys patternProperties) of
                          None \<Rightarrow> Ret result
                        | Some matchingPattern \<Rightarrow>
                            if matchingPattern = [] then Ret result
                            else
                              bind_res
                                (collectData rt doc form n (get patternProperties matchingPattern)
                                   (path @ ''.'' @ show_nat (fst ie) @ ''_pattern_value''))
                                (\<lambda>v. Ret (if v \<noteq> JUndefined \<and> isMeaningful v
                                           then obj_set (trim (e_val nameInput)) v result
                                           else result)))))
            (Ret [])
            (zip [0 ..< length (filter (has_class ''pattern-property-entry'') (e_kids container))]
               (filter (has_class ''pattern-property-entry'') (e_kids container))))"
  by pat_completeness auto
termination
  by (relation "measure (\<lambda>x. case x of
        Inl t \<Rightarrow> fst (snd (snd (snd t)))
      | Inr t \<Rightarrow> fst (snd (snd (snd t))))") simp_all

declare collectData.simps [simp del] collectPatternPropertiesData.simps [simp del]

section \<open>Validation\<close>









section \<open>What the user does\<close>

text \<open>
  Choosing a variant in the selector of the oneOf field at \<open>path\<close> runs \<open>renderVariant\<close> on
  that field's selector and options container; typing into the control at \<open>path\<close> assigns
  its value.
\<close>

lemma mapM_res_cong [fundef_cong]:
  "xs = ys \<Longrightarrow> (\<And>x. x \<in> set ys \<Longrightarrow> f x = g x) \<Longrightarrow> mapM_res f xs = mapM_res g ys"
  by (induction ys arbitrary: xs) auto



fun enter_value :: "string \<Rightarrow> string \<Rightarrow> elem \<Rightarrow> elem" where
  "enter_value path v (Elem k c d x ks) =
     Elem k c d (if k \<noteq> Plain \<and> map_of d ''schemaPath'' = Some path then assign_value k v else x)
       (map (enter_value path v) ks)"




section \<open>Properties of objects\<close>






lemma map_of_map_update:
  "map_of (map (\<lambda>e. if fst e = k then (k, v) else e) kvs) x =
     (if x = k then map_option (\<lambda>u. v) (map_of kvs k) else map_of kvs x)"
  by (induction kvs) auto

lemma map_of_ins_index:
  "k \<notin> set (map fst kvs) \<Longrightarrow> map_of (ins_index n k v kvs) = (map_of kvs)(k \<mapsto> v)"
proof (induction kvs)
  case Nil
  show ?case by simp
next
  case (Cons e kvs)
  then show ?case by (cases e) (auto simp: fun_eq_iff split: option.splits)
qed

lemma map_of_obj_set: "map_of (obj_set k v kvs) = (map_of kvs)(k \<mapsto> v)"
proof (cases "k \<in> set (map fst kvs)")
  case True
  then obtain u where "map_of kvs k = Some u"
    by (metis list.set_map map_of_eq_None_iff not_Some_eq)
  with True show ?thesis
    by (auto simp: obj_set_def map_of_map_update fun_eq_iff)
next
  case False
  then have "map_of kvs k = None"
    by (simp add: map_of_eq_None_iff)
  then have "map_of (kvs @ [(k, v)]) = (map_of kvs)(k \<mapsto> v)"
    by (auto simp: fun_eq_iff map_add_def split: option.splits)
  with False show ?thesis
    by (cases "array_index k") (simp_all add: obj_set_def map_of_ins_index)
qed

lemma get_obj_set: "get (JObj (obj_set k v kvs)) k' = (if k' = k then v else get (JObj kvs) k')"
  by (simp add: map_of_obj_set)


lemma array_index_ref: "array_index ''$ref'' = None"
  by code_simp

lemma resolveSchema_no_ref:
  "\<not> truthy (get schema ''$ref'') \<Longrightarrow> schema \<noteq> JBool True \<Longrightarrow> schema \<noteq> JBool False \<Longrightarrow>
   resolveSchema rt doc schema seen = schema"
  by (simp add: resolveSchema.simps)

subsection \<open>Enumeration order\<close>

text \<open>
  The member lists that JavaScript itself builds are in enumeration order: no name
  twice, the array indices first and ascending, the other names after them. \<open>canon\<close>
  says so of a list; assigning a member keeps it, and copying such a list member by
  member into an empty object gives the list back.
\<close>

fun canon_keys :: "string list \<Rightarrow> bool" where
  "canon_keys [] = True"
| "canon_keys (k # ks) =
     (k \<notin> set ks \<and> canon_keys ks \<and>
      (case array_index k of
         Some n \<Rightarrow> list_all (\<lambda>k'. case array_index k' of Some m \<Rightarrow> n < m | None \<Rightarrow> True) ks
       | None \<Rightarrow> list_all (\<lambda>k'. array_index k' = None) ks))"

definition canon :: "(string \<times> json) list \<Rightarrow> bool" where
  "canon kvs = canon_keys (map fst kvs)"

lemma canon_keys_prefix: "canon_keys (xs @ ys) \<Longrightarrow> canon_keys xs"
  by (induction xs) (auto split: option.splits)

lemma canon_keys_distinct: "canon_keys ks \<Longrightarrow> distinct ks"
  by (induction ks) auto


lemma keys_ins: "map fst (ins_index n k v kvs) = map fst (ins_index n k v' kvs)"
  by (induction kvs) (auto split: option.splits)

lemma canon_keys_snoc_index:
  "canon_keys (ks @ [k]) \<Longrightarrow> array_index k = Some n \<Longrightarrow>
   list_all (\<lambda>k'. case array_index k' of Some m \<Rightarrow> m < n | None \<Rightarrow> False) ks"
  by (induction ks) (auto split: option.splits)

lemma ins_index_last:
  "list_all (\<lambda>e. case array_index (fst e) of Some m \<Rightarrow> m < n | None \<Rightarrow> False) kvs \<Longrightarrow>
   ins_index n k v kvs = kvs @ [(k, v)]"
  by (induction kvs) (auto split: option.splits)

lemma obj_set_last:
  assumes "canon (kvs @ [(k, v)])"
  shows "obj_set k v kvs = kvs @ [(k, v)]"
proof -
  have c: "canon_keys (map fst kvs @ [k])" using assms by (simp add: canon_def)
  then have nk: "k \<notin> set (map fst kvs)" using canon_keys_distinct [OF c] by auto
  show ?thesis
  proof (cases "array_index k")
    case None
    then show ?thesis using nk by (simp add: obj_set_def)
  next
    case (Some n)
    have "list_all (\<lambda>k'. case array_index k' of Some m \<Rightarrow> m < n | None \<Rightarrow> False) (map fst kvs)"
      using canon_keys_snoc_index [OF c Some] .
    then have "list_all (\<lambda>e. case array_index (fst e) of Some m \<Rightarrow> m < n | None \<Rightarrow> False) kvs"
      by (simp add: list_all_iff)
    then show ?thesis using nk Some by (simp add: obj_set_def ins_index_last)
  qed
qed

lemma obj_assign_snoc: "obj_assign r (xs @ [e]) = obj_set (fst e) (snd e) (obj_assign r xs)"
  by (simp add: obj_assign_def)

lemma obj_assign_canon: "canon kvs \<Longrightarrow> obj_assign [] kvs = kvs"
proof (induction kvs rule: rev_induct)
  case Nil
  show ?case by (simp add: obj_assign_def)
next
  case (snoc e kvs)
  have "canon kvs" using snoc.prems canon_keys_prefix [of "map fst kvs" "[fst e]"]
    by (simp add: canon_def)
  then have "obj_assign [] kvs = kvs" using snoc.IH by simp
  moreover have "obj_set (fst e) (snd e) kvs = kvs @ [e]"
    using obj_set_last [of kvs "fst e" "snd e"] snoc.prems by simp
  ultimately show ?case by (simp add: obj_assign_snoc)
qed







section \<open>The loop over declared properties\<close>









section \<open>JSON pointers\<close>

text \<open>
  A JSON document is a value without \<^verbatim>\<open>undefined\<close> and without functions.
\<close>

fun is_json :: "json \<Rightarrow> bool" where
  "is_json JUndefined = False"
| "is_json JFun = False"
| "is_json (JArr xs) = list_all is_json xs"
| "is_json (JObj kvs) = list_all (\<lambda>e. is_json (snd e)) kvs"
| "is_json v = True"

text \<open>
  The subtree of a document at a pointer, as the specification and RFC 6901 read it: a
  segment names a member of an object or an index of an array, and nothing else has
  children. This is the reading the program's walk (\<open>resolveRef\<close>) is compared with.
\<close>

fun child :: "json \<Rightarrow> string \<Rightarrow> json option" where
  "child (JObj kvs) seg = map_of kvs seg"
| "child (JArr xs) seg =
     (case array_index seg of Some i \<Rightarrow> if i < length xs then Some (xs ! i) else None | None \<Rightarrow> None)"
| "child v seg = None"

fun pointer_get :: "json \<Rightarrow> string list \<Rightarrow> json option" where
  "pointer_get v [] = Some v"
| "pointer_get v (seg # segs) =
     (case child v seg of Some c \<Rightarrow> pointer_get c segs | None \<Rightarrow> None)"

text \<open>
  The text of a pointer: each segment after a \<^verbatim>\<open>/\<close>, with \<^verbatim>\<open>~\<close> written \<^verbatim>\<open>~0\<close> and \<^verbatim>\<open>/\<close>
  written \<^verbatim>\<open>~1\<close>.
\<close>

fun escape :: "string \<Rightarrow> string" where
  "escape [] = []"
| "escape (c # s) =
     (if c = CHR ''~'' then ''~0'' else if c = CHR ''/'' then ''~1'' else [c]) @ escape s"

definition pointer_text :: "string list \<Rightarrow> string" where
  "pointer_text segs = concat (map (\<lambda>s. CHR ''/'' # escape s) segs)"

text \<open>
  The walk of \<open>resolveRef\<close> reads \<^verbatim>\<open>acc[segment]\<close>, which also finds what is no child of
  a JSON value: the \<^verbatim>\<open>length\<close> and the characters of a string, the \<^verbatim>\<open>length\<close> of an
  array, and every inherited member. \<open>leaves_document\<close> holds when the walk along the
  segments reaches such a member at the first segment that has no child.
\<close>

fun leaves_document :: "runtime \<Rightarrow> json \<Rightarrow> string list \<Rightarrow> bool" where
  "leaves_document rt v [] = False"
| "leaves_document rt v (seg # segs) =
     (case child v seg of
        Some c \<Rightarrow> leaves_document rt c segs
      | None \<Rightarrow> truthy v \<and> member rt v seg \<noteq> JUndefined)"

lemma replace_skip: "x \<noteq> a \<Longrightarrow> replace_all2 a b r (x # t) = x # replace_all2 a b r t"
  by (cases t) auto

fun tilde_only :: "string \<Rightarrow> string" where
  "tilde_only [] = []"
| "tilde_only (c # s) = (if c = CHR ''~'' then ''~0'' else [c]) @ tilde_only s"

lemma pass1: "replace_all2 CHR ''~'' CHR ''1'' ''/'' (escape s) = tilde_only s"
proof (induction s)
  case Nil
  show ?case by simp
next
  case (Cons c s)
  show ?case
  proof (cases "c = CHR ''~''")
    case True
    have "replace_all2 CHR ''~'' CHR ''1'' ''/'' (CHR ''~'' # CHR ''0'' # escape s) =
        CHR ''~'' # replace_all2 CHR ''~'' CHR ''1'' ''/'' (CHR ''0'' # escape s)"
      by simp
    then show ?thesis using True Cons by (simp add: replace_skip)
  next
    case False
    then show ?thesis using Cons by (auto simp: replace_skip)
  qed
qed

lemma pass2: "replace_all2 CHR ''~'' CHR ''0'' ''~'' (tilde_only s) = s"
  by (induction s) (auto simp: replace_skip)

lemma unescape_escape: "unescape (escape s) = s"
  by (simp add: unescape_def pass1 pass2)

lemma escape_no_slash: "CHR ''/'' \<notin> set (escape s)"
  by (induction s) auto

lemma split_no_sep: "c \<notin> set a \<Longrightarrow> split_on c a = [a]"
  by (induction a) auto

lemma split_at_sep: "c \<notin> set a \<Longrightarrow> split_on c (a @ c # b) = a # split_on c b"
  by (induction a) auto

lemma split_pointer:
  "split_on CHR ''/'' (escape s @ pointer_text segs) = map escape (s # segs)"
proof (induction segs arbitrary: s)
  case Nil
  show ?case by (simp add: pointer_text_def split_no_sep escape_no_slash)
next
  case (Cons t segs)
  have "escape s @ pointer_text (t # segs) = escape s @ CHR ''/'' # (escape t @ pointer_text segs)"
    by (simp add: pointer_text_def)
  then show ?case using Cons [of t] by (simp add: split_at_sep escape_no_slash)
qed

lemma segments_of_pointer:
  "segs \<noteq> [] \<Longrightarrow>
   map unescape (split_on CHR ''/'' (drop 2 (''#'' @ pointer_text segs))) = segs"
proof (cases segs)
  case Nil
  then show "segs \<noteq> [] \<Longrightarrow> ?thesis" by simp
next
  case (Cons s rest)
  have "drop 2 (''#'' @ pointer_text segs) = escape s @ pointer_text rest"
    using Cons by (simp add: pointer_text_def)
  then show ?thesis using Cons split_pointer [of s rest]
    by (simp add: unescape_escape comp_def)
qed

lemma array_index_length: "array_index ''length'' = None"
  by code_simp

lemma is_json_child: "is_json v \<Longrightarrow> child v seg = Some c \<Longrightarrow> is_json c"
proof (cases v)
  case (JObj kvs)
  assume "is_json v" and "child v seg = Some c"
  then have "(seg, c) \<in> set kvs" and "list_all (\<lambda>e. is_json (snd e)) kvs"
    using JObj by (auto dest: map_of_SomeD)
  then show ?thesis by (auto simp: list_all_iff)
next
  case (JArr xs)
  assume "is_json v" and "child v seg = Some c"
  then show ?thesis using JArr
    by (auto simp: list_all_iff split: option.splits if_splits)
qed auto

lemma is_json_defined: "is_json c \<Longrightarrow> c \<noteq> JUndefined"
  by (cases c) auto

lemma step_child:
  "is_json v \<Longrightarrow> child v seg = Some c \<Longrightarrow> pointer_step rt v seg = c"
proof -
  assume j: "is_json v" and ch: "child v seg = Some c"
  have d: "c \<noteq> JUndefined" using is_json_child [OF j ch] by (rule is_json_defined)
  have "get v seg = c \<and> truthy v"
  proof (cases v)
    case (JObj kvs)
    then show ?thesis using ch by simp
  next
    case (JArr xs)
    then have "seg \<noteq> ''length''" using ch array_index_length by (auto split: option.splits)
    then show ?thesis using ch JArr by (auto split: option.splits if_splits)
  qed (use ch in auto)
  then show ?thesis using d by (simp add: pointer_step_def member_def)
qed

lemma walk_null: "foldl (pointer_step rt) JNull segs = JNull"
  by (induction segs) (auto simp: pointer_step_def)

lemma walk_found:
  "is_json v \<Longrightarrow> pointer_get v segs = Some w \<Longrightarrow> foldl (pointer_step rt) v segs = w"
proof (induction segs arbitrary: v)
  case Nil
  then show ?case by simp
next
  case (Cons seg segs)
  then obtain c where c: "child v seg = Some c" and r: "pointer_get c segs = Some w"
    by (auto split: option.splits)
  have "is_json c" using Cons.prems(1) c by (rule is_json_child)
  then show ?case using Cons.IH [OF _ r] step_child [OF Cons.prems(1) c, of rt] by simp
qed

lemma walk_missing:
  "is_json v \<Longrightarrow> pointer_get v segs = None \<Longrightarrow> \<not> leaves_document rt v segs \<Longrightarrow>
   foldl (pointer_step rt) v segs = JNull"
proof (induction segs arbitrary: v)
  case Nil
  then show ?case by simp
next
  case (Cons seg segs)
  show ?case
  proof (cases "child v seg")
    case None
    then have "pointer_step rt v seg = JNull"
      using Cons.prems(3) by (auto simp: pointer_step_def)
    then show ?thesis by (simp add: walk_null)
  next
    case (Some c)
    have "is_json c" using Cons.prems(1) Some by (rule is_json_child)
    then show ?thesis
      using Cons.IH [of c] Cons.prems Some step_child [OF Cons.prems(1) Some, of rt] by simp
  qed
qed

lemma pointer_text_shape: "segs \<noteq> [] \<Longrightarrow> \<exists>t. pointer_text segs = CHR ''/'' # t"
  by (cases segs) (auto simp: pointer_text_def)

lemma resolveRef_pointer:
  "segs \<noteq> [] \<Longrightarrow>
   resolveRef rt doc (JStr (''#'' @ pointer_text segs)) = foldl (pointer_step rt) doc segs"
proof -
  assume ne: "segs \<noteq> []"
  then obtain t where t: "pointer_text segs = CHR ''/'' # t"
    using pointer_text_shape by blast
  have "map unescape (split_on CHR ''/'' (drop 2 (''#'' @ pointer_text segs))) = segs"
    using ne by (rule segments_of_pointer)
  then show ?thesis using t
    by (simp add: resolveRef_def startsWith_def)
qed

section \<open>Resolving and merging, step by step\<close>



lemma map_res_simps [simp]:
  "map_res f (Ret x) = Ret (f x)" "map_res f Throw = Throw" "map_res f OutOfFuel = OutOfFuel"
  by (simp_all add: map_res_def)

lemma bind_res_assoc: "bind_res (bind_res a f) g = bind_res a (\<lambda>x. bind_res (f x) g)"
  by (cases a) auto

lemma no_ref_outside_objects:
  "\<not> (truthy v \<and> typeof v = ''object'') \<Longrightarrow> get v ''$ref'' = JUndefined"
  by (cases v) (auto simp: array_index_ref)



























lemma ref_is_on_object: "get schema ''$ref'' = JStr r \<Longrightarrow> truthy schema \<and> typeof schema = ''object''"
  using no_ref_outside_objects [of schema] by auto

lemma get_deleted: "get (JObj (obj_delete k kvs)) k = JUndefined"
  by simp

lemma resolveSchema_ref_found:
  assumes "get schema ''$ref'' = JStr r" and "r \<noteq> []" and "truthy doc"
    and "truthy (resolveRef rt doc (JStr r))"
  shows "resolveSchema rt doc schema [] =
           JObj (obj_delete ''$ref''
             (obj_assign (spread (resolveRef rt doc (JStr r)))
                (obj_delete ''$ref'' (own_entries schema))))"
proof -
  have o: "truthy schema \<and> typeof schema = ''object''" using assms(1) by (rule ref_is_on_object)
  then have b: "schema \<noteq> JBool True \<and> schema \<noteq> JBool False" by auto
  show ?thesis
    apply (subst resolveSchema.simps)
    using assms o b by (simp add: resolveSchema_no_ref get_deleted del: get.simps)
qed

lemma resolveSchema_ref_missing:
  assumes "get schema ''$ref'' = JStr r" and "r \<noteq> []" and "truthy doc"
    and "\<not> truthy (resolveRef rt doc (JStr r))"
  shows "resolveSchema rt doc schema [] =
           JObj [(''__unresolvedRef'', JStr r), (''description'', get schema ''description'')]"
proof -
  have o: "truthy schema \<and> typeof schema = ''object''" using assms(1) by (rule ref_is_on_object)
  then have b: "schema \<noteq> JBool True \<and> schema \<noteq> JBool False" by auto
  show ?thesis
    apply (subst resolveSchema.simps)
    using assms o b by (simp del: get.simps)
qed

lemma child_truthy: "child v seg = Some c \<Longrightarrow> truthy v"
  by (cases v) auto

lemma pointer_get_truthy: "segs \<noteq> [] \<Longrightarrow> pointer_get doc segs = Some v \<Longrightarrow> truthy doc"
  by (cases segs) (auto simp: child_truthy split: option.splits)

lemma reference_only:
  assumes "canon kvs" and "''$ref'' \<notin> set (map fst kvs)"
  shows "obj_delete ''$ref'' (obj_assign (spread (JObj kvs)) (obj_delete ''$ref'' [(''$ref'', x)])) = kvs"
proof -
  have "filter (\<lambda>e. fst e \<noteq> ''$ref'') kvs = kvs"
    using assms(2) by (induction kvs) auto
  then show ?thesis using assms(1) by (simp add: obj_delete_def spread_def obj_assign_canon) (simp add: obj_assign_def)
qed


section \<open>Example documents\<close>

text \<open>
  A host for the closed examples: nothing is inherited, text that is not a plain decimal
  numeral is not a number, and a pattern \<^verbatim>\<open>^name$\<close> matches exactly \<^verbatim>\<open>name\<close>. It agrees
  with a JavaScript runtime on every input the examples give it.
\<close>

definition sample_host :: runtime where
  "sample_host =
     \<lparr> proto = (\<lambda>v k. JUndefined), Number_text = (\<lambda>s. None), String_value = (\<lambda>v. []),
       ToNumber_value = (\<lambda>v. None), parseInt_text = (\<lambda>s. None), JSON_stringify = (\<lambda>v. []),
       regex_test = (\<lambda>p s. p = ''^'' @ s @ ''$'') \<rparr>"

definition self_ref :: json where
  "self_ref = JObj [(''$ref'', JStr ''#'')]"

definition two_cycle :: json where
  "two_cycle =
     JObj [(''$defs'', JObj [(''A'', JObj [(''$ref'', JStr ''#/$defs/B'')]),
                             (''B'', JObj [(''$ref'', JStr ''#/$defs/A'')])]),
           (''$ref'', JStr ''#/$defs/A'')]"











text \<open>Arrays of strings, with the item type written as a union and as a name.\<close>

definition union_items :: json where
  "union_items =
     JObj [(''type'', JStr ''array''), (''minItems'', JNum 1),
           (''items'', JObj [(''type'', JArr [JStr ''string'', JStr ''null''])])]"

definition string_items :: json where
  "string_items =
     JObj [(''type'', JStr ''array''), (''minItems'', JNum 1),
           (''items'', JObj [(''type'', JStr ''string'')])]"

text \<open>
  An array of arrays with three items (two opened by \<open>minItems\<close>, one added by a click),
  after the remove button of the item at index 1 is clicked.
\<close>

definition grid_schema :: json where
  "grid_schema =
     JObj [(''type'', JStr ''array''), (''minItems'', JNum 2),
           (''items'', JObj [(''type'', JStr ''array''), (''items'', JObj [(''type'', JStr ''string'')])])]"

definition paths_of :: "string \<Rightarrow> elem \<Rightarrow> string list" where
  "paths_of k e = concat (map (\<lambda>x. case attr x k of Some p \<Rightarrow> [p] | None \<Rightarrow> []) (descendants e))"

definition grid_items :: "elem option res" where
  "grid_items =
     bind_res (renderSchemaForm sample_host grid_schema 6 grid_schema) (\<lambda>form.
       case getArrayContainer form ''root'' of
         None \<Rightarrow> Ret None
       | Some c \<Rightarrow>
           bind_res (add_click sample_host grid_schema 5 grid_schema ''root'' c) (\<lambda>c'.
             Ret (case c' of None \<Rightarrow> None | Some c3 \<Rightarrow> remove_click sample_host c3 ''root'' 1)))"
text \<open>Two references into one external document, and the state after the first fetch failed.\<close>

definition two_refs :: json where
  "two_refs =
     JObj [(''a'', JObj [(''$ref'', JStr ''https://x/schema.json#/$defs/Name'')]),
           (''b'', JObj [(''$ref'', JStr ''https://x/schema.json#/$defs/Other'')])]"

definition failed_once :: fetch_state where
  "failed_once = \<lparr> cache = [(''https://x/schema.json'', JNull)], requests = [''https://x/schema.json''] \<rparr>"

text \<open>
  A document whose title is a string, and one with a definition under a name that needs
  escaping in a pointer.
\<close>

definition titled :: json where
  "titled = JObj [(''title'', JStr ''Hello'')]"

definition defs_doc :: json where
  "defs_doc = JObj [(''$defs'', JObj [(''a/b'', JObj [(''type'', JStr ''string'')])])]"

text \<open>
  Three schemas to merge: \<^verbatim>\<open>A\<close> and \<^verbatim>\<open>C\<close> both give a title and an object-shaped property
  \<^verbatim>\<open>x\<close>; \<open>merged_abc\<close> is what merging the three gives.
\<close>

definition named_a :: json where
  "named_a = JObj [(''title'', JStr ''A''),
                   (''properties'',
                      JObj [(''x'', JObj [(''type'', JStr ''object''),
                                          (''properties'', JObj [(''p'', JObj [(''type'', JStr ''string'')])]),
                                          (''required'', JArr [JStr ''p''])])]),
                   (''required'', JArr [JStr ''x''])]"

definition named_b :: json where
  "named_b = JObj [(''properties'', JObj [(''y'', JObj [(''type'', JStr ''number'')])]),
                   (''required'', JArr [JStr ''y'', JStr ''x''])]"

definition named_c :: json where
  "named_c = JObj [(''title'', JStr ''C''),
                   (''properties'',
                      JObj [(''x'', JObj [(''type'', JStr ''object''),
                                          (''properties'', JObj [(''q'', JObj [(''type'', JStr ''number'')])]),
                                          (''required'', JArr [JStr ''q''])])]),
                   (''required'', JArr [JStr ''z''])]"

definition named_doc :: json where
  "named_doc = JObj [(''allOf'', JArr [named_a, named_b, named_c])]"



section \<open>Claims\<close>

text \<open>
  C4. A \<^verbatim>\<open>$ref\<close> cycle of length 1 or 2: resolution returns, but not with the CircularRef
  marker. \<open>resolveSchema\<close> is a total function (its termination is proved above: the merged
  node has no \<^verbatim>\<open>$ref\<close> left), so every call returns; on a schema that refers to itself,
  and on one whose two definitions refer to each other, it returns the target's own
  keywords with the \<^verbatim>\<open>$ref\<close> dropped, and never the marker
  \<^verbatim>\<open>{__circularRef: true}\<close>: the test \<^verbatim>\<open>seen.has(ref)\<close> is only reached with an empty \<open>seen\<close>.
\<close>

theorem cycle_resolves_without_marker:
  "resolveSchema rt self_ref self_ref [] = JObj [] \<and>
   resolveSchema rt two_cycle two_cycle [] = JObj [(''$defs'', get two_cycle ''$defs'')] \<and>
   resolveSchema rt two_cycle (JObj [(''$ref'', JStr ''#/$defs/B'')]) [] = JObj []"
  by code_simp

theorem cycle_resolves_without_marker_witness:
  "resolveSchema sample_host self_ref self_ref [] = JObj [] \<and>
   get (resolveSchema sample_host two_cycle two_cycle []) ''__circularRef'' = JUndefined"
  using cycle_resolves_without_marker [of sample_host] by code_simp






































text \<open>
  C10. The item type \<^verbatim>\<open>["string", "null"]\<close> is read as \<^verbatim>\<open>"string"\<close> by \<open>getSchemaType\<close>,
  and the form rendered for it is the one rendered for \<^verbatim>\<open>"string"\<close>; but the array branch
  of \<open>collectData\<close> tests the raw \<^verbatim>\<open>type\<close> keyword of the item schema, takes the union for
  a complex item and collects it by recursion at the item path, where the first element
  carrying that path is the item wrapper, which has no value: what the user typed is
  lost.
\<close>

theorem union_item_type_loses_value:
  "getSchemaType (get union_items ''items'') = getSchemaType (get string_items ''items'') \<and>
   renderSchemaForm rt union_items (Suc (Suc (Suc (Suc n)))) union_items =
     renderSchemaForm rt string_items (Suc (Suc (Suc (Suc n)))) string_items \<and>
   bind_res (renderSchemaForm rt string_items (Suc (Suc (Suc (Suc n)))) string_items)
     (\<lambda>form. collectData rt string_items (enter_value ''root[0]'' ''hello'' form) (Suc (Suc k))
                string_items ''root'') = Ret (JArr [JStr ''hello'']) \<and>
   bind_res (renderSchemaForm rt union_items (Suc (Suc (Suc (Suc n)))) union_items)
     (\<lambda>form. collectData rt union_items (enter_value ''root[0]'' ''hello'' form) (Suc (Suc k))
                union_items ''root'') = Ret (JArr [])"
  by code_simp

theorem union_item_type_loses_value_witness:
  "bind_res (renderSchemaForm sample_host union_items (Suc (Suc (Suc (Suc 0)))) union_items)
     (\<lambda>form. collectData sample_host union_items (enter_value ''root[0]'' ''hello'' form) (Suc (Suc 0))
                union_items ''root'') = Ret (JArr [])"
  using union_item_type_loses_value [of sample_host 0 0]
  by blast

text \<open>
  C2. Removing the item at index 1 of a three-item array of arrays: the items are
  renumbered to \<^verbatim>\<open>root[0]\<close> and \<^verbatim>\<open>root[1]\<close>, but the array container inside the item that
  was at index 2 keeps the path \<^verbatim>\<open>root[2]\<close>: for \<^verbatim>\<open>data-array-path\<close> (and
  \<^verbatim>\<open>data-one-of-path\<close>) only continuations of the old item path are rewritten, not the
  old item path itself.
\<close>

theorem stale_container_path_after_removal:
  "map_res (map_option (\<lambda>c. (paths_of ''schemaPath'' c, paths_of ''arrayPath'' c))) grid_items =
     Ret (Some ([''root[0]'', ''root[1]''], [''root[0]'', ''root[2]'']))"
  by code_simp

lemma map_of_cache_set: "map_of (cache_set k v c) = (map_of c)(k \<mapsto> v)"
proof (cases "k \<in> set (map fst c)")
  case True
  then obtain u where "map_of c k = Some u"
    by (metis list.set_map map_of_eq_None_iff not_Some_eq)
  with True show ?thesis
    by (auto simp: cache_set_def map_of_map_update fun_eq_iff)
next
  case False
  then have "map_of c k = None"
    by (simp add: map_of_eq_None_iff)
  with False show ?thesis
    by (auto simp: cache_set_def fun_eq_iff map_add_def split: option.splits)
qed

lemma failed_fetch_caches_sentinel:
  assumes "startsWith r ''http://'' \<or> startsWith r ''https://''"
    and "map_of (cache st) (fst (ref_parts r)) = None"
    and "net (length (requests st)) (fst (ref_parts r)) = None"
  shows "resolveExternalRef rt net (JStr r) st =
     (JNull, \<lparr> cache = cache st @ [(fst (ref_parts r), JNull)],
               requests = requests st @ [fst (ref_parts r)] \<rparr>)"
proof -
  have "r \<noteq> []" using assms(1) by (auto simp: startsWith_def)
  moreover have "fst (ref_parts r) \<notin> set (map fst (cache st))"
    using assms(2) by (simp add: map_of_eq_None_iff)
  ultimately show ?thesis using assms
    by (auto simp: resolveExternalRef_def Let_def cache_set_def)
qed

lemma sentinel_answers_without_fetch:
  assumes "startsWith r ''http://'' \<or> startsWith r ''https://''"
    and "map_of (cache st) (fst (ref_parts r)) = Some JNull"
  shows "resolveExternalRef rt net (JStr r) st = (JNull, st)"
proof -
  have "r \<noteq> []" using assms(1) by (auto simp: startsWith_def)
  then show ?thesis using assms by (auto simp: resolveExternalRef_def Let_def)
qed

lemma sentinel_gives_marker:
  assumes "startsWith r ''http://'' \<or> startsWith r ''https://''"
    and "map_of (cache st) (fst (ref_parts r)) = Some JNull"
    and "get schema ''$ref'' = JStr r"
  shows "preResolveExternalRefs rt net (Suc n) schema st =
     Ret (JObj [(''__unresolvedRef'', JStr r)], st)"
proof -
  have ne: "r \<noteq> []" using assms(1) by (auto simp: startsWith_def)
  obtain kvs where k: "schema = JObj kvs"
    using assms(3) by (cases schema) (auto simp: array_index_ref split: if_splits)
  have "is_external (JStr r)" using assms(1) ne by (simp add: is_external_def)
  then show ?thesis
    using sentinel_answers_without_fetch [OF assms(1,2), of rt net] assms(3) k
    by (simp add: preResolveExternalRefs.simps)
qed

lemma resolveExternalRef_keeps:
  "map_of (cache st) b = Some v \<Longrightarrow>
   map_of (cache (snd (resolveExternalRef rt net ref st))) b = Some v"
  by (auto simp: resolveExternalRef_def Let_def map_of_cache_set split: json.splits option.splits)

lemma mapM_state_invariant:
  assumes "mapM_state f xs s = Ret (ys, s')" and "P s"
    and "\<And>x t y t'. x \<in> set xs \<Longrightarrow> P t \<Longrightarrow> f x t = Ret (y, t') \<Longrightarrow> P t'"
  shows "P s'"
  using assms
proof (induction xs arbitrary: s ys)
  case Nil
  then show ?case by simp
next
  case (Cons x xs)
  from Cons.prems(1) obtain y t where fx: "f x s = Ret (y, t)"
    by (cases "f x s") auto
  with Cons.prems(1) obtain zs where rest: "mapM_state f xs t = Ret (zs, s')"
    by (cases "mapM_state f xs t") auto
  have "P t" using Cons.prems(2,3) fx by auto
  then show ?case using Cons.IH [OF rest] Cons.prems(3) by auto
qed

lemma preResolve_keeps:
  "preResolveExternalRefs rt net n schema st = Ret (s', st') \<Longrightarrow>
   map_of (cache st) b = Some v \<Longrightarrow> map_of (cache st') b = Some v"
proof (induction n arbitrary: schema st s' st')
  case 0
  then show ?case by (simp add: preResolveExternalRefs.simps)
next
  case (Suc n)
  let ?P = "\<lambda>t. map_of (cache t) b = Some v"
  consider (leaf) "\<not> truthy schema \<or> typeof schema \<noteq> ''object''"
    | (arr) "\<not> (\<not> truthy schema \<or> typeof schema \<noteq> ''object'')" "isArray schema"
    | (ext) "\<not> (\<not> truthy schema \<or> typeof schema \<noteq> ''object'')" "\<not> isArray schema"
        "is_external (get schema ''$ref'')"
    | (obj) "\<not> (\<not> truthy schema \<or> typeof schema \<noteq> ''object'')" "\<not> isArray schema"
        "\<not> is_external (get schema ''$ref'')"
    by blast
  then show ?case
  proof cases
    case leaf
    then show ?thesis using Suc.prems by (auto simp: preResolveExternalRefs.simps)
  next
    case arr
    then obtain ys where
      m: "mapM_state (\<lambda>item s. preResolveExternalRefs rt net n item s) (elems schema) st = Ret (ys, st')"
      using Suc.prems(1)
      by (auto simp: preResolveExternalRefs.simps map_res_def elim!: bind_res.elims)
    show ?thesis
      by (rule mapM_state_invariant [OF m, where P = ?P]) (use Suc in auto)
  next
    case ext
    let ?r = "resolveExternalRef rt net (get schema ''$ref'') st"
    have k: "?P (snd ?r)" using Suc.prems(2) by (rule resolveExternalRef_keeps)
    show ?thesis
    proof (cases "truthy (fst ?r)")
      case True
      then have "preResolveExternalRefs rt net n
             (JObj (obj_assign (spread (fst ?r)) (obj_delete ''$ref'' (own_entries schema))))
             (snd ?r) = Ret (s', st')"
        using Suc.prems(1) ext by (simp add: preResolveExternalRefs.simps)
      then show ?thesis using Suc.IH k by blast
    next
      case False
      then have "st' = snd ?r"
        using Suc.prems(1) ext by (simp add: preResolveExternalRefs.simps)
      then show ?thesis using k by simp
    qed
  next
    case obj
    then obtain ys where
      m: "mapM_state
             (\<lambda>v s. if typeof v = ''object'' \<and> v \<noteq> JNull
                    then preResolveExternalRefs rt net n v s else Ret (v, s))
             (map snd (spread schema)) st = Ret (ys, st')"
      using Suc.prems(1)
      by (auto simp: preResolveExternalRefs.simps map_res_def elim!: bind_res.elims)
    show ?thesis
      by (rule mapM_state_invariant [OF m, where P = ?P]) (use Suc in \<open>auto split: if_splits\<close>)
  qed
qed


text \<open>
  C6. When the fetch for an external reference fails, \<open>resolveExternalRef\<close> stores the
  failure sentinel under the base URL (the reference up to its first \<^verbatim>\<open>#\<close>) and returns
  \<^verbatim>\<open>null\<close>. From a state that holds the sentinel, a reference with the same base URL is
  answered from the cache: no request is issued, whatever the network would now answer,
  and pre-resolution replaces the referring node by the marker
  \<^verbatim>\<open>{__unresolvedRef: ref}\<close>. No pre-resolution run removes or overwrites the sentinel.
\<close>

theorem failed_fetch_is_cached:
  "((startsWith r ''http://'' \<or> startsWith r ''https://'') \<and>
    map_of (cache st) (fst (ref_parts r)) = None \<and>
    net (length (requests st)) (fst (ref_parts r)) = None \<longrightarrow>
    resolveExternalRef rt net (JStr r) st =
      (JNull, \<lparr> cache = cache st @ [(fst (ref_parts r), JNull)],
                requests = requests st @ [fst (ref_parts r)] \<rparr>)) \<and>
   ((startsWith r' ''http://'' \<or> startsWith r' ''https://'') \<and>
    map_of (cache st') (fst (ref_parts r')) = Some JNull \<longrightarrow>
    resolveExternalRef rt net' (JStr r') st' = (JNull, st') \<and>
    (get schema ''$ref'' = JStr r' \<longrightarrow>
     preResolveExternalRefs rt net' (Suc n) schema st' =
       Ret (JObj [(''__unresolvedRef'', JStr r')], st'))) \<and>
   (preResolveExternalRefs rt net' m schema' st' = Ret (s'', st'') \<and>
    map_of (cache st') b = Some JNull \<longrightarrow>
    map_of (cache st'') b = Some JNull)"
  using failed_fetch_caches_sentinel [of r st net rt]
    sentinel_answers_without_fetch [of r' st' rt net']
    sentinel_gives_marker [of r' st' schema rt net' n]
    preResolve_keeps [of rt net' m schema' st' s'' st'' b JNull]
  by blast

lemma two_refs_facts:
  "(startsWith ''https://x/schema.json#/$defs/Name'' ''http://'' \<or>
    startsWith ''https://x/schema.json#/$defs/Name'' ''https://'') \<and>
   map_of (cache \<lparr> cache = [], requests = [] \<rparr>) (fst (ref_parts ''https://x/schema.json#/$defs/Name'')) = None \<and>
   fst (ref_parts ''https://x/schema.json#/$defs/Name'') = ''https://x/schema.json'' \<and>
   (startsWith ''https://x/schema.json#/$defs/Other'' ''http://'' \<or>
    startsWith ''https://x/schema.json#/$defs/Other'' ''https://'') \<and>
   map_of (cache failed_once) (fst (ref_parts ''https://x/schema.json#/$defs/Other'')) = Some JNull \<and>
   get (JObj [(''$ref'', JStr ''https://x/schema.json#/$defs/Other'')]) ''$ref'' =
     JStr ''https://x/schema.json#/$defs/Other'' \<and>
   map_of (cache failed_once) ''https://x/schema.json'' = Some JNull \<and>
   preResolveExternalRefs sample_host (\<lambda>k u. Some (JObj [])) 3 two_refs failed_once =
     Ret (JObj [(''a'', JObj [(''__unresolvedRef'', JStr ''https://x/schema.json#/$defs/Name'')]),
                (''b'', JObj [(''__unresolvedRef'', JStr ''https://x/schema.json#/$defs/Other'')])],
          failed_once) \<and>
   preResolveExternalRefs sample_host (\<lambda>k u. None) 3 two_refs \<lparr> cache = [], requests = [] \<rparr> =
     Ret (JObj [(''a'', JObj [(''__unresolvedRef'', JStr ''https://x/schema.json#/$defs/Name'')]),
                (''b'', JObj [(''__unresolvedRef'', JStr ''https://x/schema.json#/$defs/Other'')])],
          failed_once)"
  by code_simp

theorem failed_fetch_is_cached_witness:
  "resolveExternalRef sample_host (\<lambda>k u. None) (JStr ''https://x/schema.json#/$defs/Name'')
     \<lparr> cache = [], requests = [] \<rparr> = (JNull, failed_once) \<and>
   resolveExternalRef sample_host (\<lambda>k u. Some (JObj [])) (JStr ''https://x/schema.json#/$defs/Other'')
     failed_once = (JNull, failed_once) \<and>
   preResolveExternalRefs sample_host (\<lambda>k u. Some (JObj [])) (Suc 0)
     (JObj [(''$ref'', JStr ''https://x/schema.json#/$defs/Other'')]) failed_once =
     Ret (JObj [(''__unresolvedRef'', JStr ''https://x/schema.json#/$defs/Other'')], failed_once) \<and>
   map_of (cache failed_once) ''https://x/schema.json'' = Some JNull \<and>
   preResolveExternalRefs sample_host (\<lambda>k u. None) 3 two_refs \<lparr> cache = [], requests = [] \<rparr> =
     Ret (JObj [(''a'', JObj [(''__unresolvedRef'', JStr ''https://x/schema.json#/$defs/Name'')]),
                (''b'', JObj [(''__unresolvedRef'', JStr ''https://x/schema.json#/$defs/Other'')])],
          failed_once)"
  using failed_fetch_is_cached
    [of "''https://x/schema.json#/$defs/Name''" "\<lparr> cache = [], requests = [] \<rparr>" "\<lambda>k u. None"
        sample_host "''https://x/schema.json#/$defs/Other''" failed_once "\<lambda>k u. Some (JObj [])"
        "JObj [(''$ref'', JStr ''https://x/schema.json#/$defs/Other'')]" 0 3 two_refs
        "JObj [(''a'', JObj [(''__unresolvedRef'', JStr ''https://x/schema.json#/$defs/Name'')]),
               (''b'', JObj [(''__unresolvedRef'', JStr ''https://x/schema.json#/$defs/Other'')])]"
        failed_once "''https://x/schema.json''"]
    two_refs_facts
  by (simp add: failed_once_def)


lemma defs_facts:
  "is_json defs_doc \<and> truthy defs_doc \<and>
   pointer_get defs_doc [''$defs'', ''a/b''] = Some (JObj [(''type'', JStr ''string'')]) \<and>
   pointer_text [''$defs'', ''a/b''] = ''/$defs/a~1b'' \<and>
   canon [(''type'', JStr ''string'')] \<and>
   pointer_get defs_doc [''$defs'', ''zz''] = None \<and>
   \<not> leaves_document sample_host defs_doc [''$defs'', ''zz''] \<and>
   pointer_text [''$defs'', ''zz''] = ''/$defs/zz'' \<and>
   obj_delete ''$ref'' (obj_assign (spread (JObj [(''type'', JStr ''string'')]))
     (obj_delete ''$ref'' [(''$ref'', JStr ''#/$defs/a~1b'')])) = [(''type'', JStr ''string'')]"
  by code_simp

lemma falsy_target_reported_unresolved:
  "resolveRef rt (JObj [(''$defs'', JObj [(''never'', JBool False)])]) (JStr ''#/$defs/never'') =
     JBool False \<and>
   resolveSchema rt (JObj [(''$defs'', JObj [(''never'', JBool False)])])
     (JObj [(''$ref'', JStr ''#/$defs/never'')]) [] =
     JObj [(''__unresolvedRef'', JStr ''#/$defs/never''), (''description'', JUndefined)]"
  by code_simp

text \<open>
  C3. For a JSON document and a pointer \<^verbatim>\<open>#/a/b\<close>, written from its segments with \<^verbatim>\<open>~\<close> and
  \<^verbatim>\<open>/\<close> escaped: when the document has a subtree at the pointer, \<open>resolveRef\<close> returns
  exactly that subtree, and \<open>resolveSchema\<close> returns, for a truthy subtree, its keywords
  under the sibling keywords of the referring node with \<^verbatim>\<open>$ref\<close> removed, which for a
  node that is only a reference and an object subtree with no \<^verbatim>\<open>$ref\<close> of its own is
  the subtree itself. When a segment is missing and the walk does not leave the
  document, \<open>resolveRef\<close> returns \<^verbatim>\<open>null\<close> and \<open>resolveSchema\<close> the marker
  \<^verbatim>\<open>{__unresolvedRef: ref}\<close>. Neither function can throw: both are total and return a
  value. But the walk can leave the document: in \<^verbatim>\<open>{"title": "Hello"}\<close> the pointer
  \<^verbatim>\<open>#/title/length\<close> names nothing, and yet \<open>resolveRef\<close> returns 5 and \<open>resolveSchema\<close> the
  empty schema, not the marker.
\<close>

theorem internal_ref_walks_pointer:
  "(is_json doc \<and> segs \<noteq> [] \<and> pointer_get doc segs = Some v \<longrightarrow>
      resolveRef rt doc (JStr (''#'' @ pointer_text segs)) = v \<and>
      (truthy v \<and> get schema ''$ref'' = JStr (''#'' @ pointer_text segs) \<longrightarrow>
         resolveSchema rt doc schema [] =
           JObj (obj_delete ''$ref'' (obj_assign (spread v) (obj_delete ''$ref'' (own_entries schema))))) \<and>
      (v = JObj kvs \<and> canon kvs \<and> ''$ref'' \<notin> set (map fst kvs) \<longrightarrow>
         resolveSchema rt doc (JObj [(''$ref'', JStr (''#'' @ pointer_text segs))]) [] = v)) \<and>
   (is_json doc \<and> segs \<noteq> [] \<and> pointer_get doc segs = None \<and> \<not> leaves_document rt doc segs \<longrightarrow>
      resolveRef rt doc (JStr (''#'' @ pointer_text segs)) = JNull \<and>
      (truthy doc \<and> get schema ''$ref'' = JStr (''#'' @ pointer_text segs) \<longrightarrow>
         resolveSchema rt doc schema [] =
           JObj [(''__unresolvedRef'', JStr (''#'' @ pointer_text segs)),
                 (''description'', get schema ''description'')])) \<and>
   (is_json titled \<and> pointer_get titled [''title'', ''length''] = None \<and>
    pointer_text [''title'', ''length''] = ''/title/length'' \<and>
    resolveRef rt titled (JStr ''#/title/length'') = JNum 5 \<and>
    resolveSchema rt titled (JObj [(''$ref'', JStr ''#/title/length'')]) [] = JObj [])"
proof (intro conjI impI)
  assume a: "is_json doc \<and> segs \<noteq> [] \<and> pointer_get doc segs = Some v"
  then show r: "resolveRef rt doc (JStr (''#'' @ pointer_text segs)) = v"
    using resolveRef_pointer [of segs rt doc] walk_found [of doc segs v rt] by simp
  have d: "truthy doc" using a pointer_get_truthy [of segs doc v] by simp
  {
    assume "truthy v \<and> get schema ''$ref'' = JStr (''#'' @ pointer_text segs)"
    then show "resolveSchema rt doc schema [] =
           JObj (obj_delete ''$ref'' (obj_assign (spread v) (obj_delete ''$ref'' (own_entries schema))))"
      using resolveSchema_ref_found [of schema "''#'' @ pointer_text segs" doc rt] r d by simp
  }
  {
    assume k: "v = JObj kvs \<and> canon kvs \<and> ''$ref'' \<notin> set (map fst kvs)"
    then have "truthy (resolveRef rt doc (JStr (''#'' @ pointer_text segs)))" using r by simp
    then have "resolveSchema rt doc (JObj [(''$ref'', JStr (''#'' @ pointer_text segs))]) [] =
            JObj (obj_delete ''$ref'' (obj_assign (spread v)
                   (obj_delete ''$ref'' (own_entries (JObj [(''$ref'', JStr (''#'' @ pointer_text segs))])))))"
      using resolveSchema_ref_found [of "JObj [(''$ref'', JStr (''#'' @ pointer_text segs))]"
          "''#'' @ pointer_text segs" doc rt] r d by simp
    then show "resolveSchema rt doc (JObj [(''$ref'', JStr (''#'' @ pointer_text segs))]) [] = v"
      using k reference_only [of kvs "JStr (''#'' @ pointer_text segs)"] by simp
  }
next
  assume a: "is_json doc \<and> segs \<noteq> [] \<and> pointer_get doc segs = None \<and> \<not> leaves_document rt doc segs"
  then show r: "resolveRef rt doc (JStr (''#'' @ pointer_text segs)) = JNull"
    using resolveRef_pointer [of segs rt doc] walk_missing [of doc segs rt] by simp
  {
    assume "truthy doc \<and> get schema ''$ref'' = JStr (''#'' @ pointer_text segs)"
    then show "resolveSchema rt doc schema [] =
           JObj [(''__unresolvedRef'', JStr (''#'' @ pointer_text segs)),
                 (''description'', get schema ''description'')]"
      using resolveSchema_ref_missing [of schema "''#'' @ pointer_text segs" doc rt] r by simp
  }
next
  show "is_json titled" by code_simp
  show "pointer_get titled [''title'', ''length''] = None" by code_simp
  show "pointer_text [''title'', ''length''] = ''/title/length''" by code_simp
  show "resolveRef rt titled (JStr ''#/title/length'') = JNum 5" by code_simp
  show "resolveSchema rt titled (JObj [(''$ref'', JStr ''#/title/length'')]) [] = JObj []" by code_simp
qed

theorem internal_ref_walks_pointer_witness:
  "resolveRef sample_host defs_doc (JStr ''#/$defs/a~1b'') = JObj [(''type'', JStr ''string'')] \<and>
   resolveSchema sample_host defs_doc (JObj [(''$ref'', JStr ''#/$defs/a~1b'')]) [] =
     JObj [(''type'', JStr ''string'')] \<and>
   resolveSchema sample_host defs_doc (JObj [(''$ref'', JStr ''#/$defs/zz'')]) [] =
     JObj [(''__unresolvedRef'', JStr ''#/$defs/zz''), (''description'', JUndefined)]"
  using internal_ref_walks_pointer [of defs_doc "[''$defs'', ''a/b'']" "JObj [(''type'', JStr ''string'')]"
          sample_host "JObj [(''$ref'', JStr ''#/$defs/a~1b'')]" "[(''type'', JStr ''string'')]"]
        internal_ref_walks_pointer [of defs_doc "[''$defs'', ''zz'']" JNull
          sample_host "JObj [(''$ref'', JStr ''#/$defs/zz'')]" "[]"]
        defs_facts
  by simp



lemma allOf_order_example:
  "map_res (\<lambda>m. (get m ''title'', get m ''required''))
     (mergeAllOfSchemas sample_host named_doc (JArr [named_a, named_c])) =
     Ret (JStr ''C'', JArr [JStr ''x'', JStr ''z'']) \<and>
   map_res (\<lambda>m. (get m ''title'', get m ''required''))
     (mergeAllOfSchemas sample_host named_doc (JArr [named_c, named_a])) =
     Ret (JStr ''A'', JArr [JStr ''z'', JStr ''x''])"
  by code_simp



end
